theory Spec2Isabelle
  imports Complex_Main
begin

section \<open>Numbers and values\<close>

text \<open>
  The hook \<^verbatim>\<open>useMediaPipe\<close> (src/hooks/useMediaPipe.ts) computes with JavaScript
  numbers, which are IEEE 754 binary64 values. A number is modelled as the real it
  denotes, and every arithmetic operation rounds its exact result to the nearest number
  with a significand of 53 bits, ties to the even significand (\<open>fl\<close>). The exponent
  range is taken as unbounded: overflow to \<^verbatim>\<open>Infinity\<close> (magnitudes from 2^1024) and
  gradual underflow (below 2^-1022) are not modelled, and neither are \<^verbatim>\<open>NaN\<close> and
  the infinities, so a division is only written where the divisor is not zero.
  The integer-valued DOM attributes (\<^verbatim>\<open>videoWidth\<close>, \<^verbatim>\<open>canvas.width\<close>,
  \<^verbatim>\<open>window.innerWidth\<close>, all below 2^32) and array indices are naturals.
  A value that may be \<^verbatim>\<open>null\<close> or \<^verbatim>\<open>undefined\<close> is an \<open>option\<close>.
\<close>

definition roundTiesToEven :: "real \<Rightarrow> int" where
  \<comment> \<open>the nearest integer; halfway between two integers, the even one\<close>
  "roundTiesToEven t =
     (if t - of_int (floor t) < 1 / 2 then floor t
      else if 1 / 2 < t - of_int (floor t) then floor t + 1
      else if even (floor t) then floor t else floor t + 1)"

definition expo :: "real \<Rightarrow> int" where
  \<comment> \<open>the binary exponent \<open>e\<close> of a positive number: \<open>2^e \<le> x < 2^(e+1)\<close>\<close>
  "expo x = floor (log 2 x)"

definition ulp :: "real \<Rightarrow> real" where
  \<comment> \<open>the spacing of the numbers with 53 significant bits around a positive \<open>x\<close>\<close>
  "ulp x = 2 powr (of_int (expo x) - 52)"

definition roundPos :: "real \<Rightarrow> real" where
  "roundPos x = of_int (roundTiesToEven (x / ulp x)) * ulp x"

definition fl :: "real \<Rightarrow> real" where
  \<comment> \<open>rounding to the nearest binary64 number\<close>
  "fl x = (if x = 0 then 0 else if 0 < x then roundPos x else - roundPos (- x))"

definition fadd :: "real \<Rightarrow> real \<Rightarrow> real" where
  \<comment> \<open>\<^verbatim>\<open>a + b\<close>\<close>
  "fadd a b = fl (a + b)"

definition fsub :: "real \<Rightarrow> real \<Rightarrow> real" where
  \<comment> \<open>\<^verbatim>\<open>a - b\<close>\<close>
  "fsub a b = fl (a - b)"

definition fmul :: "real \<Rightarrow> real \<Rightarrow> real" where
  \<comment> \<open>\<^verbatim>\<open>a * b\<close>\<close>
  "fmul a b = fl (a * b)"

definition fdiv :: "real \<Rightarrow> real \<Rightarrow> real" where
  \<comment> \<open>\<^verbatim>\<open>a / b\<close> for a divisor other than zero\<close>
  "fdiv a b = fl (a / b)"

definition jsRem :: "real \<Rightarrow> real \<Rightarrow> real" where
  \<comment> \<open>The operator \<^verbatim>\<open>%\<close> on finite numbers with a non-zero divisor: the quotient is
      truncated, and the remainder is exact (it needs no rounding).\<close>
  "jsRem a b = a - b * of_int (if 0 \<le> a / b then floor (a / b) else ceiling (a / b))"

definition jsOr :: "real option \<Rightarrow> real \<Rightarrow> real" where
  \<comment> \<open>\<^verbatim>\<open>v || d\<close> for an optional number: \<^verbatim>\<open>undefined\<close> and \<^verbatim>\<open>0\<close> are falsy.\<close>
  "jsOr v d = (case v of None \<Rightarrow> d | Some n \<Rightarrow> if n = 0 then d else n)"

datatype jsError = TypeError

section \<open>Data model (lines 5-16)\<close>

text \<open>
  The fields \<^verbatim>\<open>x\<close>, \<^verbatim>\<open>y\<close>, \<^verbatim>\<open>z\<close> of a landmark are named \<open>lmX\<close>, \<open>lmY\<close>, \<open>lmZ\<close>
  here, so that the one-letter names stay free for variables.
\<close>

record Landmark =
  lmX :: real
  lmY :: real
  lmZ :: real
  visibility :: "real option"

text \<open>
  A slot of a landmark array holds a landmark or \<^verbatim>\<open>undefined\<close> (\<open>None\<close>); reading an
  index past the end of the array gives \<^verbatim>\<open>undefined\<close> as well.
\<close>

record HandDetectionResult =
  landmarks :: "Landmark option list"
  confidence :: real
  handedness :: string

definition slotAt :: "'a option list \<Rightarrow> nat \<Rightarrow> 'a option" where
  \<comment> \<open>\<^verbatim>\<open>xs[i]\<close>\<close>
  "slotAt xs i = (if i < length xs then xs ! i else None)"

text \<open>What the detector hands to the callback (\<^verbatim>\<open>Results\<close> of the hand-tracking library).\<close>

record Handedness =
  score :: real
  label :: string

record Results =
  multiHandLandmarks :: "Landmark option list list option"
  multiHandedness :: "Handedness list option"

section \<open>The aspect fit of \<^verbatim>\<open>onResults\<close> (lines 45-63)\<close>

record FitTransform =
  scaleX :: real
  scaleY :: real
  offsetX :: real
  offsetY :: real

definition videoAspect :: "nat \<Rightarrow> nat \<Rightarrow> real" where
  \<comment> \<open>line 45; the caller has checked that both numbers are non-zero (line 43)\<close>
  "videoAspect vw vh = fdiv (real vw) (real vh)"

definition canvasAspect :: "nat \<Rightarrow> nat \<Rightarrow> real" where
  \<comment> \<open>line 46, for a canvas of non-zero height\<close>
  "canvasAspect cw ch = fdiv (real cw) (real ch)"

definition videoIsWider :: "nat \<Rightarrow> nat \<Rightarrow> nat \<Rightarrow> nat \<Rightarrow> bool" where
  \<comment> \<open>The test of line 51, \<^verbatim>\<open>videoAspect > canvasAspect\<close>. For a canvas of height 0 the
      right-hand side is \<^verbatim>\<open>Infinity\<close> or \<^verbatim>\<open>NaN\<close> and the comparison is false.\<close>
  "videoIsWider vw vh cw ch = (ch \<noteq> 0 \<and> videoAspect vw vh > canvasAspect cw ch)"

definition heightFit :: "nat \<Rightarrow> nat \<Rightarrow> nat \<Rightarrow> nat \<Rightarrow> FitTransform" where
  \<comment> \<open>lines 53-56: the branch taken when the test holds\<close>
  "heightFit vw vh cw ch =
     \<lparr> scaleX = fmul (real ch) (videoAspect vw vh),
       scaleY = real ch,
       offsetX = fdiv (fsub (real cw) (fmul (real ch) (videoAspect vw vh))) 2,
       offsetY = 0 \<rparr>"

definition widthFit :: "nat \<Rightarrow> nat \<Rightarrow> nat \<Rightarrow> nat \<Rightarrow> FitTransform" where
  \<comment> \<open>lines 59-62: the else branch\<close>
  "widthFit vw vh cw ch =
     \<lparr> scaleX = real cw,
       scaleY = fdiv (real cw) (videoAspect vw vh),
       offsetX = 0,
       offsetY = fdiv (fsub (real ch) (fdiv (real cw) (videoAspect vw vh))) 2 \<rparr>"

definition fitTransform :: "nat \<Rightarrow> nat \<Rightarrow> nat \<Rightarrow> nat \<Rightarrow> FitTransform" where
  \<comment> \<open>lines 48-63, from the video's intrinsic size and the canvas size\<close>
  "fitTransform vw vh cw ch =
     (if videoIsWider vw vh cw ch then heightFit vw vh cw ch else widthFit vw vh cw ch)"

definition toCanvasX :: "FitTransform \<Rightarrow> real \<Rightarrow> real" where
  \<comment> \<open>\<^verbatim>\<open>landmark.x * scaleX + offsetX\<close> (lines 161, 163, 174)\<close>
  "toCanvasX tf u = fadd (fmul u (scaleX tf)) (offsetX tf)"

definition toCanvasY :: "FitTransform \<Rightarrow> real \<Rightarrow> real" where
  \<comment> \<open>\<^verbatim>\<open>landmark.y * scaleY + offsetY\<close> (lines 162, 164, 175)\<close>
  "toCanvasY tf v = fadd (fmul v (scaleY tf)) (offsetY tf)"

section \<open>Calls on the 2D context\<close>

text \<open>
  Drawing is recorded as the list of calls and property assignments made on the canvas
  context, in order. A colour string is kept as its components instead of the formatted
  text (a component written in the string is the decimal written there, a component
  interpolated into it is the number computed), a gradient object as its geometry and
  colour stops, and the text of \<^verbatim>\<open>fillText\<close> as the landmark index it prints.
  What the browser does with a call, such as rejecting the negative radius of an arc,
  is not modelled.
\<close>

datatype color =
    Rgba real real real real
  | Hsla real real real real

datatype fillStyle =
    ColorFill color
  | RadialGradient real real real real real real "(real \<times> color) list"

datatype ctxCall =
    SetFillStyle fillStyle
  | SetStrokeStyle color
  | SetLineWidth real
  | SetShadowColor color
  | SetShadowBlur real
  | SetFont real
  | SetTextAlignCenter
  | SetTextBaselineMiddle
  | FillRect real real real real
  | BeginPath
  | MoveTo real real
  | LineTo real real
  | Stroke
  | Arc real real real real real
  | Fill
  | FillText nat real real

text \<open>
  A run of drawing code: the calls it made, and the exception that stopped it, if any.
\<close>

type_synonym run = "ctxCall list \<times> jsError option"

definition calls :: "ctxCall list \<Rightarrow> run" where
  "calls cs = (cs, None)"

definition raise :: "jsError \<Rightarrow> run" where
  "raise e = ([], Some e)"

definition andThen :: "run \<Rightarrow> run \<Rightarrow> run" where
  \<comment> \<open>sequencing: after an exception nothing more runs\<close>
  "andThen a b = (case snd a of Some e \<Rightarrow> a | None \<Rightarrow> (fst a @ fst b, snd b))"

fun forEach :: "('a \<Rightarrow> run) \<Rightarrow> 'a list \<Rightarrow> run" where
  "forEach f [] = calls []"
| "forEach f (a # as) = andThen (f a) (forEach f as)"

section \<open>\<^verbatim>\<open>drawLandmarks\<close> (lines 130-215)\<close>

definition connections :: "(nat \<times> nat) list" where
  \<comment> \<open>lines 139-146\<close>
  "connections =
     [(0, 1), (1, 2), (2, 3), (3, 4),
      (0, 5), (5, 6), (6, 7), (7, 8),
      (5, 9), (9, 10), (10, 11), (11, 12),
      (9, 13), (13, 14), (14, 15), (15, 16),
      (13, 17), (17, 18), (18, 19), (19, 20),
      (0, 17)]"

definition bothPresent :: "Landmark option list \<Rightarrow> nat \<times> nat \<Rightarrow> bool" where
  \<comment> \<open>the guard of line 160: both slots are truthy, that is, hold a landmark\<close>
  "bothPresent lms c = (slotAt lms (fst c) \<noteq> None \<and> slotAt lms (snd c) \<noteq> None)"

definition segment :: "FitTransform \<Rightarrow> Landmark \<Rightarrow> Landmark \<Rightarrow> ctxCall list" where
  \<comment> \<open>lines 161-167, for the two landmarks of an edge\<close>
  "segment tf a b =
     [MoveTo (toCanvasX tf (lmX a)) (toCanvasY tf (lmY a)),
      LineTo (toCanvasX tf (lmX b)) (toCanvasY tf (lmY b))]"

definition drawConnection :: "FitTransform \<Rightarrow> Landmark option list \<Rightarrow> nat \<times> nat \<Rightarrow> run" where
  \<comment> \<open>The body of the loop of line 159 for the edge \<open>c\<close> = [start, end]. Reading a property
      of \<^verbatim>\<open>undefined\<close> raises a TypeError; the start landmark is read first.\<close>
  "drawConnection tf lms c =
     (if bothPresent lms c then
        (case slotAt lms (fst c) of
           None \<Rightarrow> raise TypeError
         | Some a \<Rightarrow>
             (case slotAt lms (snd c) of
                None \<Rightarrow> raise TypeError
              | Some b \<Rightarrow> calls (segment tf a b)))
      else calls [])"

definition drawConnections :: "FitTransform \<Rightarrow> Landmark option list \<Rightarrow> run" where
  \<comment> \<open>lines 158-170\<close>
  "drawConnections tf lms =
     andThen (calls [BeginPath])
       (andThen (forEach (drawConnection tf lms) connections) (calls [Stroke]))"

definition discVisibility :: "Landmark \<Rightarrow> real" where
  \<comment> \<open>line 176\<close>
  "discVisibility landmark = jsOr (visibility landmark) 1"

definition baseRadius :: "FitTransform \<Rightarrow> real" where
  \<comment> \<open>line 179\<close>
  "baseRadius tf = max 8 (fdiv (min (scaleX tf) (scaleY tf)) 40)"

definition discRadius :: "FitTransform \<Rightarrow> Landmark \<Rightarrow> real" where
  \<comment> \<open>line 180\<close>
  "discRadius tf landmark =
     fmul (fmul (baseRadius tf) (fadd 1 (fmul (lmZ landmark) 1.5))) (discVisibility landmark)"

definition discGradient :: "real \<Rightarrow> real \<Rightarrow> real \<Rightarrow> real \<Rightarrow> real \<Rightarrow> fillStyle" where
  \<comment> \<open>lines 186-189\<close>
  "discGradient px py radius hue vis =
     RadialGradient px py 0 px py (fmul radius 1.5)
       [(0, Hsla hue 90 90 vis),
        (fl 0.7, Hsla hue 85 75 (fmul vis (fl 0.8))),
        (1, Hsla hue 80 50 (fmul vis (fl 0.2)))]"

definition drawDisc :: "FitTransform \<Rightarrow> real \<Rightarrow> real \<Rightarrow> nat \<times> Landmark option \<Rightarrow> run" where
  \<comment> \<open>The body of the loop of line 173 for the slot at \<open>index\<close>; the callback reads
      \<^verbatim>\<open>landmark.x\<close> first, which raises on \<^verbatim>\<open>undefined\<close>.\<close>
  "drawDisc tf baseHue time p =
     (case p of (index, slot) \<Rightarrow>
        (case slot of
           None \<Rightarrow> raise TypeError
         | Some landmark \<Rightarrow>
             (let px = toCanvasX tf (lmX landmark);
                  py = toCanvasY tf (lmY landmark);
                  vis = discVisibility landmark;
                  radius = discRadius tf landmark;
                  hue = jsRem (fadd (fadd baseHue (fmul (real index) 15)) (fmul time 20)) 360
              in calls
                   ([SetShadowColor (Hsla hue 90 70 0.8),
                     SetShadowBlur radius,
                     SetFillStyle (discGradient px py radius hue vis),
                     BeginPath,
                     Arc px py radius 0 (fmul 2 (fl pi)),
                     Fill] @
                    (if radius > 10 then
                       [SetFillStyle (ColorFill (Rgba 255 255 255 (fmul vis (fl 0.9)))),
                        SetFont (max 12 (fdiv radius 2)),
                        SetShadowColor (Rgba 0 0 0 0.8),
                        SetShadowBlur 4,
                        SetTextAlignCenter,
                        SetTextBaselineMiddle,
                        FillText index px py]
                     else [])))))"

definition drawHand :: "FitTransform \<Rightarrow> (nat \<Rightarrow> real) \<Rightarrow> nat \<times> HandDetectionResult \<Rightarrow> run" where
  \<comment> \<open>The body of the loop of line 148; \<open>now handIndex\<close> is what \<^verbatim>\<open>Date.now()\<close> returns
      in that iteration.\<close>
  "drawHand tf now p =
     (case p of (handIndex, hand) \<Rightarrow>
        (let time = fmul (now handIndex) (fl 0.001);
             baseHue = jsRem (fadd (fmul (real handIndex) 120) (fmul time 30)) 360
         in andThen
              (calls
                 [SetStrokeStyle (Hsla baseHue 80 70 0.9),
                  SetLineWidth (max 3 (fdiv (scaleX tf) 200)),
                  SetShadowColor (Hsla baseHue 80 70 0.6),
                  SetShadowBlur (max 8 (fdiv (scaleX tf) 100))])
              (andThen (drawConnections tf (landmarks hand))
                 (andThen
                    (forEach (drawDisc tf baseHue time) (enumerate 0 (landmarks hand)))
                    (calls [SetShadowBlur 0])))))"

definition drawLandmarks :: "FitTransform \<Rightarrow> (nat \<Rightarrow> real) \<Rightarrow> HandDetectionResult list \<Rightarrow> run" where
  "drawLandmarks tf now hands = forEach (drawHand tf now) (enumerate 0 hands)"

section \<open>The state of the hook (lines 19-27)\<close>

record Video =
  videoWidth :: nat
  videoHeight :: nat

text \<open>
  \<open>context2d\<close> is what \<^verbatim>\<open>canvas.getContext('2d')\<close> returns: \<open>None\<close> for \<^verbatim>\<open>null\<close>,
  otherwise the context, kept as the calls made on it so far.
\<close>

record Canvas =
  width :: nat
  height :: nat
  context2d :: "ctxCall list option"

record Hands =
  maxNumHands :: nat
  modelComplexity :: nat
  minDetectionConfidence :: real
  minTrackingConfidence :: real

record Camera =
  captureWidth :: nat
  captureHeight :: nat

text \<open>Calls that reach the camera library and the console.\<close>

datatype effect =
    CameraCreated nat nat
  | CameraStarted
  | CameraStopped
  | ConsoleError

record World =
  videoRef :: "Video option"
  canvasRef :: "Canvas option"
  handsRef :: "Hands option"
  cameraRef :: "Camera option"
  isInitialized :: bool
  isStreaming :: bool
  detectionResults :: "HandDetectionResult list"
  error :: string
  innerWidth :: nat
  innerHeight :: nat
  effects :: "effect list"

section \<open>\<^verbatim>\<open>onResults\<close> (lines 30-98)\<close>

fun mapE :: "('a \<Rightarrow> jsError + 'b) \<Rightarrow> 'a list \<Rightarrow> jsError + 'b list" where
  \<comment> \<open>a loop whose body may raise: the first exception ends it\<close>
  "mapE f [] = Inr []"
| "mapE f (a # as) =
     (case f a of
        Inl e \<Rightarrow> Inl e
      | Inr b \<Rightarrow> (case mapE f as of Inl e \<Rightarrow> Inl e | Inr bs \<Rightarrow> Inr (b # bs)))"

definition copyLandmark :: "Landmark option \<Rightarrow> jsError + Landmark option" where
  \<comment> \<open>lines 84-89: the callback of \<^verbatim>\<open>landmarks.map\<close> reads \<^verbatim>\<open>landmark.x\<close>\<close>
  "copyLandmark slot =
     (case slot of
        None \<Rightarrow> Inl TypeError
      | Some landmark \<Rightarrow>
          Inr (Some \<lparr> lmX = lmX landmark, lmY = lmY landmark, lmZ = lmZ landmark,
                       visibility = visibility landmark \<rparr>))"

definition detectedHand :: "Handedness list \<Rightarrow> nat \<times> Landmark option list \<Rightarrow> jsError + HandDetectionResult" where
  \<comment> \<open>lines 80-92, for the hand at \<open>index\<close>\<close>
  "detectedHand hs p =
     (case p of (index, lms) \<Rightarrow>
        (let h = (if index < length hs then Some (hs ! index) else None);
             conf = jsOr (map_option score h) 0
         in case mapE copyLandmark lms of
              Inl e \<Rightarrow> Inl e
            | Inr copied \<Rightarrow>
                Inr \<lparr> landmarks = copied,
                      confidence = conf,
                      handedness =
                        (case h of
                           None \<Rightarrow> ''Unknown''
                         | Some c \<Rightarrow> if label c = [] then ''Unknown'' else label c) \<rparr>))"

definition detectedHands :: "Results \<Rightarrow> jsError + HandDetectionResult list" where
  \<comment> \<open>lines 76-94\<close>
  "detectedHands results =
     (case multiHandLandmarks results of
        None \<Rightarrow> Inr []
      | Some lss \<Rightarrow>
          (case multiHandedness results of
             None \<Rightarrow> Inr []
           | Some hs \<Rightarrow> mapE (detectedHand hs) (enumerate 0 lss)))"

definition background :: "nat \<Rightarrow> nat \<Rightarrow> ctxCall list" where
  \<comment> \<open>lines 66-73\<close>
  "background cw ch =
     [SetFillStyle
        (RadialGradient (fdiv (real cw) 2) (fdiv (real ch) 2) 0
           (fdiv (real cw) 2) (fdiv (real ch) 2) (fdiv (max (real cw) (real ch)) 2)
           [(0, Rgba 30 20 60 0.95), (1, Rgba 10 10 30 0.98)]),
      FillRect 0 0 (real cw) (real ch)]"

definition onResults :: "(nat \<Rightarrow> real) \<Rightarrow> Results \<Rightarrow> World \<Rightarrow> World \<times> jsError option" where
  \<comment> \<open>The new state, and the exception the callback ended with, if any. Assigning
      \<^verbatim>\<open>canvas.width\<close> also clears the bitmap in a browser; the record of calls is kept.\<close>
  "onResults now results w =
     (case canvasRef w of
        None \<Rightarrow> (w, None)
      | Some canvas \<Rightarrow>
          (case context2d canvas of
             None \<Rightarrow> (w, None)
           | Some ctx \<Rightarrow>
               (let cw = innerWidth w;
                    ch = innerHeight w;
                    sized = canvas \<lparr> width := cw, height := ch \<rparr>;
                    w1 = w \<lparr> canvasRef := Some sized \<rparr>
                in case videoRef w of
                     None \<Rightarrow> (w1, None)
                   | Some video \<Rightarrow>
                       if videoWidth video = 0 \<or> videoHeight video = 0 then (w1, None)
                       else
                         (let tf = fitTransform (videoWidth video) (videoHeight video) cw ch;
                              painted = ctx @ background cw ch
                          in case detectedHands results of
                               Inl e \<Rightarrow>
                                 (w \<lparr> canvasRef := Some (sized \<lparr> context2d := Some painted \<rparr>) \<rparr>,
                                  Some e)
                             | Inr hands \<Rightarrow>
                                 (let r = drawLandmarks tf now hands
                                  in (w \<lparr> canvasRef :=
                                             Some (sized \<lparr> context2d := Some (painted @ fst r) \<rparr>),
                                           detectionResults := hands \<rparr>,
                                      snd r))))))"

section \<open>The session: \<^verbatim>\<open>initializeMediaPipe\<close>, \<^verbatim>\<open>startCamera\<close>, \<^verbatim>\<open>stopCamera\<close>\<close>

text \<open>
  What the two libraries do is not in the repository, so it is a parameter: whether
  constructing and configuring the detector throws, and whether constructing or starting
  the camera throws (a denied permission rejects \<^verbatim>\<open>camera.start()\<close>).
\<close>

datatype handsOutcome = HandsOk | HandsThrows

datatype cameraOutcome = CameraOk | CameraConstructorThrows | CameraStartThrows

definition initErrorMessage :: string where
  \<comment> \<open>the UTF-8 bytes of the message of line 125 ("initialising MediaPipe failed")\<close>
  "initErrorMessage =
     [CHR 0x4D, CHR 0x65, CHR 0x64, CHR 0x69, CHR 0x61, CHR 0x50, CHR 0x69, CHR 0x70, CHR 0x65,
      CHR 0xE3, CHR 0x81, CHR 0xAE, CHR 0xE5, CHR 0x88, CHR 0x9D, CHR 0xE6, CHR 0x9C, CHR 0x9F,
      CHR 0xE5, CHR 0x8C, CHR 0x96, CHR 0xE3, CHR 0x81, CHR 0xAB, CHR 0xE5, CHR 0xA4, CHR 0xB1,
      CHR 0xE6, CHR 0x95, CHR 0x97, CHR 0xE3, CHR 0x81, CHR 0x97, CHR 0xE3, CHR 0x81, CHR 0xBE,
      CHR 0xE3, CHR 0x81, CHR 0x97, CHR 0xE3, CHR 0x81, CHR 0x9F]"

definition cameraErrorMessage :: string where
  \<comment> \<open>the UTF-8 bytes of the message of line 241 ("starting the camera failed")\<close>
  "cameraErrorMessage =
     [CHR 0xE3, CHR 0x82, CHR 0xAB, CHR 0xE3, CHR 0x83, CHR 0xA1, CHR 0xE3, CHR 0x83, CHR 0xA9,
      CHR 0xE3, CHR 0x81, CHR 0xAE, CHR 0xE9, CHR 0x96, CHR 0x8B, CHR 0xE5, CHR 0xA7, CHR 0x8B,
      CHR 0xE3, CHR 0x81, CHR 0xAB, CHR 0xE5, CHR 0xA4, CHR 0xB1, CHR 0xE6, CHR 0x95, CHR 0x97,
      CHR 0xE3, CHR 0x81, CHR 0x97, CHR 0xE3, CHR 0x81, CHR 0xBE, CHR 0xE3, CHR 0x81, CHR 0x97,
      CHR 0xE3, CHR 0x81, CHR 0x9F]"

definition initializeMediaPipe :: "handsOutcome \<Rightarrow> World \<Rightarrow> World" where
  \<comment> \<open>lines 101-127\<close>
  "initializeMediaPipe ho w =
     (case ho of
        HandsOk \<Rightarrow>
          w \<lparr> handsRef :=
                Some \<lparr> maxNumHands = 2, modelComplexity = 1,
                       minDetectionConfidence = 0.5, minTrackingConfidence = 0.5 \<rparr>,
              isInitialized := True,
              error := [] \<rparr>
      | HandsThrows \<Rightarrow>
          w \<lparr> error := initErrorMessage, effects := effects w @ [ConsoleError] \<rparr>)"

definition startCamera :: "handsOutcome \<Rightarrow> cameraOutcome \<Rightarrow> World \<Rightarrow> World" where
  \<comment> \<open>lines 218-243\<close>
  "startCamera ho co w =
     (if handsRef w = None \<or> videoRef w = None then initializeMediaPipe ho w
      else
        (case co of
           CameraOk \<Rightarrow>
             w \<lparr> cameraRef := Some \<lparr> captureWidth = 1280, captureHeight = 720 \<rparr>,
                 isStreaming := True,
                 error := [],
                 effects := effects w @ [CameraCreated 1280 720, CameraStarted] \<rparr>
         | CameraConstructorThrows \<Rightarrow>
             w \<lparr> error := cameraErrorMessage, effects := effects w @ [ConsoleError] \<rparr>
         | CameraStartThrows \<Rightarrow>
             w \<lparr> error := cameraErrorMessage,
                 effects := effects w @ [CameraCreated 1280 720, ConsoleError] \<rparr>))"

definition stopCamera :: "World \<Rightarrow> World" where
  \<comment> \<open>lines 246-253\<close>
  "stopCamera w =
     (let w1 = (case cameraRef w of
                  None \<Rightarrow> w
                | Some camera \<Rightarrow>
                    w \<lparr> cameraRef := None, effects := effects w @ [CameraStopped] \<rparr>)
      in w1 \<lparr> isStreaming := False, detectionResults := [] \<rparr>)"

section \<open>Notions used to state the properties\<close>

definition chain :: "nat list \<Rightarrow> (nat \<times> nat) list" where
  \<comment> \<open>the edges between consecutive joints of a finger\<close>
  "chain js = zip js (tl js)"

definition missing :: "Landmark option list \<Rightarrow> nat \<Rightarrow> bool" where
  \<comment> \<open>no landmark at index \<open>i\<close>: past the end of the array, or an \<^verbatim>\<open>undefined\<close> entry\<close>
  "missing lms i = (length lms \<le> i \<or> lms ! i = None)"

definition canvasPoint :: "FitTransform \<Rightarrow> Landmark \<Rightarrow> real \<times> real" where
  \<comment> \<open>where a landmark belongs on the canvas: its normalized coordinates scaled and
      shifted by the transform, each operation rounded\<close>
  "canvasPoint tf p =
     (fl (fl (lmX p * scaleX tf) + offsetX tf), fl (fl (lmY p * scaleY tf) + offsetY tf))"

definition edgeStroke :: "FitTransform \<Rightarrow> Landmark option list \<Rightarrow> nat \<times> nat \<Rightarrow> ctxCall list" where
  \<comment> \<open>the line of an edge: from the canvas point of the landmark at its first index to
      that of the landmark at its second\<close>
  "edgeStroke tf lms c =
     [MoveTo (fst (canvasPoint tf (the (lms ! fst c)))) (snd (canvasPoint tf (the (lms ! fst c)))),
      LineTo (fst (canvasPoint tf (the (lms ! snd c)))) (snd (canvasPoint tf (the (lms ! snd c))))]"

definition unavailable :: "World \<Rightarrow> bool" where
  \<comment> \<open>the canvas, its 2D context, the video element or one of the video's intrinsic
      dimensions is \<^verbatim>\<open>null\<close>, \<^verbatim>\<open>undefined\<close> or zero\<close>
  "unavailable w =
     (canvasRef w = None
      \<or> Option.bind (canvasRef w) context2d = None
      \<or> videoRef w = None
      \<or> map_option videoWidth (videoRef w) = Some 0
      \<or> map_option videoHeight (videoRef w) = Some 0)"

definition mounted :: World where
  \<comment> \<open>the state after the first render of the component: both elements exist, the video
      has no intrinsic size yet, the canvas has its default size, nothing is initialised\<close>
  "mounted =
     \<lparr> videoRef = Some \<lparr> videoWidth = 0, videoHeight = 0 \<rparr>,
       canvasRef = Some \<lparr> width = 300, height = 150, context2d = Some [] \<rparr>,
       handsRef = None,
       cameraRef = None,
       isInitialized = False,
       isStreaming = False,
       detectionResults = [],
       error = [],
       innerWidth = 1920,
       innerHeight = 1080,
       effects = [] \<rparr>"

definition noHands :: Results where
  "noHands = \<lparr> multiHandLandmarks = None, multiHandedness = None \<rparr>"

definition joint :: "nat \<Rightarrow> Landmark" where
  \<comment> \<open>a sample landmark, different for each index\<close>
  "joint i = \<lparr> lmX = real i / 32, lmY = real i / 64, lmZ = 2, visibility = Some 0 \<rparr>"

definition partialHand :: "Landmark option list" where
  \<comment> \<open>21 slots, of which those of the thumb tip (4) and the pinky tip (20) are undefined\<close>
  "partialHand =
     [Some (joint 0), Some (joint 1), Some (joint 2), Some (joint 3), None,
      Some (joint 5), Some (joint 6), Some (joint 7), Some (joint 8),
      Some (joint 9), Some (joint 10), Some (joint 11), Some (joint 12),
      Some (joint 13), Some (joint 14), Some (joint 15), Some (joint 16),
      Some (joint 17), Some (joint 18), Some (joint 19), None]"

definition sampleFit :: FitTransform where
  \<comment> \<open>a transform with a non-zero offset on both axes\<close>
  "sampleFit = \<lparr> scaleX = 640, scaleY = 320, offsetX = 10, offsetY = 20 \<rparr>"

definition presentEdges :: "Landmark option list \<Rightarrow> (nat \<times> nat) list" where
  \<comment> \<open>the edges of the connection list with a landmark at both ends, in order\<close>
  "presentEdges lms =
     filter (\<lambda>c. \<not> missing lms (fst c) \<and> \<not> missing lms (snd c)) connections"

definition resized :: "World \<Rightarrow> Canvas option" where
  \<comment> \<open>the canvas with its size set to the viewport's, when it has a 2D context\<close>
  "resized w =
     (if Option.bind (canvasRef w) context2d = None then canvasRef w
      else map_option (\<lambda>c. c \<lparr> width := innerWidth w, height := innerHeight w \<rparr>) (canvasRef w))"

section \<open>Properties of rounding\<close>

text \<open>
  Rounding to the nearest integer is monotone, exact on integers and off by at most one
  half.
\<close>

lemma rte_upper: "of_int (roundTiesToEven t) \<le> t + 1 / 2"
  unfolding roundTiesToEven_def by (auto; linarith)

lemma rte_lower: "t - 1 / 2 \<le> of_int (roundTiesToEven t)"
  unfolding roundTiesToEven_def by (auto; linarith)

lemma rte_int: "roundTiesToEven (of_int n) = n"
  by (simp add: roundTiesToEven_def)

lemma rte_mono:
  assumes "s \<le> t"
  shows "roundTiesToEven s \<le> roundTiesToEven t"
proof (cases "floor s = floor t")
  case True
  then show ?thesis
    using assms unfolding roundTiesToEven_def by auto
next
  case False
  then have "floor s < floor t"
    using assms floor_mono [of s t] by linarith
  moreover have "roundTiesToEven s \<le> floor s + 1"
    unfolding roundTiesToEven_def by auto
  moreover have "floor t \<le> roundTiesToEven t"
    unfolding roundTiesToEven_def by auto
  ultimately show ?thesis by linarith
qed

lemma expo_bounds:
  assumes "0 < x"
  shows "2 powr of_int (expo x) \<le> x" and "x < 2 powr (of_int (expo x) + 1)"
  using assms floor_log_eq_powr_iff [of x 2 "expo x"] by (simp_all add: expo_def)

lemma expo_eq:
  assumes "0 < x" "2 powr of_int k \<le> x" "x < 2 powr (of_int k + 1)"
  shows "expo x = k"
  using assms floor_log_eq_powr_iff [of x 2 k] by (simp add: expo_def)

lemma expo_mono:
  assumes "0 < x" "x \<le> y"
  shows "expo x \<le> expo y"
  using assms unfolding expo_def by (intro floor_mono) simp

lemma ulp_pos: "0 < ulp x"
  by (simp add: ulp_def)

lemma scaled_bounds:
  assumes "0 < x"
  shows "2 ^ 52 \<le> x / ulp x" and "x / ulp x < 2 ^ 53"
proof -
  have u: "ulp x * 2 ^ 52 = 2 powr of_int (expo x)"
    by (simp add: ulp_def powr_diff)
  have v: "ulp x * 2 ^ 53 = 2 powr (of_int (expo x) + 1)"
    by (simp add: ulp_def powr_diff powr_add)
  show "2 ^ 52 \<le> x / ulp x"
    using expo_bounds(1) [OF assms] u ulp_pos [of x]
    by (simp add: pos_le_divide_eq mult.commute)
  show "x / ulp x < 2 ^ 53"
    using expo_bounds(2) [OF assms] v ulp_pos [of x]
    by (simp add: pos_divide_less_eq mult.commute)
qed

text \<open>
  Rounding to 53 significant bits is monotone and idempotent, exact on the naturals below
  2^53, and its relative error is at most 2^-53. A value is computed from the scaling
  that brings the argument between 2^52 and 2^53.
\<close>

lemma roundPos_scaled:
  assumes "0 < x"
  shows "2 ^ 52 \<le> roundTiesToEven (x / ulp x)" and "roundTiesToEven (x / ulp x) \<le> 2 ^ 53"
proof -
  have "roundTiesToEven (of_int (2 ^ 52)) \<le> roundTiesToEven (x / ulp x)"
    using scaled_bounds(1) [OF assms] by (intro rte_mono) simp
  then show "2 ^ 52 \<le> roundTiesToEven (x / ulp x)"
    by (simp only: rte_int)
  have "roundTiesToEven (x / ulp x) \<le> roundTiesToEven (of_int (2 ^ 53))"
    using scaled_bounds(2) [OF assms] by (intro rte_mono) simp
  then show "roundTiesToEven (x / ulp x) \<le> 2 ^ 53"
    by (simp only: rte_int)
qed

lemma roundPos_bounds:
  assumes "0 < x"
  shows "2 powr of_int (expo x) \<le> roundPos x" and "roundPos x \<le> 2 powr (of_int (expo x) + 1)"
proof -
  have u: "2 ^ 52 * ulp x = 2 powr of_int (expo x)"
    by (simp add: ulp_def powr_diff)
  have v: "2 ^ 53 * ulp x = 2 powr (of_int (expo x) + 1)"
    by (simp add: ulp_def powr_diff powr_add)
  have "(2 ^ 52 :: real) \<le> of_int (roundTiesToEven (x / ulp x))"
    using roundPos_scaled(1) [OF assms] by (metis of_int_le_iff of_int_numeral of_int_power)
  then have "2 ^ 52 * ulp x \<le> roundPos x"
    unfolding roundPos_def using ulp_pos [of x] by (simp add: mult_right_mono)
  then show "2 powr of_int (expo x) \<le> roundPos x"
    by (simp only: u)
  have "of_int (roundTiesToEven (x / ulp x)) \<le> (2 ^ 53 :: real)"
    using roundPos_scaled(2) [OF assms] by (metis of_int_le_iff of_int_numeral of_int_power)
  then have "roundPos x \<le> 2 ^ 53 * ulp x"
    unfolding roundPos_def using ulp_pos [of x] by (simp add: mult_right_mono)
  then show "roundPos x \<le> 2 powr (of_int (expo x) + 1)"
    by (simp only: v)
qed

lemma roundPos_pos: "0 < x \<Longrightarrow> 0 < roundPos x"
  using roundPos_bounds(1) [of x] powr_gt_zero [of 2 "of_int (expo x)"] by linarith

lemma roundPos_mono:
  assumes "0 < x" "x \<le> y"
  shows "roundPos x \<le> roundPos y"
proof (cases "expo x = expo y")
  case True
  then have u: "ulp x = ulp y"
    by (simp add: ulp_def)
  have "x / ulp y \<le> y / ulp y"
    using assms ulp_pos [of y] by (simp add: divide_right_mono)
  then have "roundTiesToEven (x / ulp y) \<le> roundTiesToEven (y / ulp y)"
    by (rule rte_mono)
  then show ?thesis
    unfolding roundPos_def u using ulp_pos [of y] by (simp add: mult_right_mono)
next
  case False
  have y: "0 < y" using assms by simp
  have "expo x \<le> expo y"
    using assms by (rule expo_mono)
  then have "expo x + 1 \<le> expo y"
    using False by simp
  then have "real_of_int (expo x) + 1 \<le> real_of_int (expo y)"
    by linarith
  then have "(2::real) powr (of_int (expo x) + 1) \<le> 2 powr of_int (expo y)"
    by (intro powr_mono) simp_all
  then show ?thesis
    using roundPos_bounds(2) [OF assms(1)] roundPos_bounds(1) [OF y] by linarith
qed

lemma fl_zero [simp]: "fl 0 = 0"
  by (simp add: fl_def)

lemma fl_minus: "fl (- x) = - fl x"
  by (simp add: fl_def)

lemma fl_pos: "0 < x \<Longrightarrow> 0 < fl x"
  by (simp add: fl_def roundPos_pos)

lemma fl_neg: "x < 0 \<Longrightarrow> fl x < 0"
  by (simp add: fl_def roundPos_pos)

lemma fl_mono:
  assumes "x \<le> y"
  shows "fl x \<le> fl y"
proof -
  consider "0 < x" | "x = 0" | "x < 0" "y < 0" | "x < 0" "0 \<le> y"
    by linarith
  then show ?thesis
  proof cases
    case 1
    then show ?thesis using assms by (simp add: fl_def roundPos_mono)
  next
    case 2
    then show ?thesis using assms fl_pos [of y] by (cases "y = 0") (simp_all add: less_eq_real_def)
  next
    case 3
    then have "roundPos (- y) \<le> roundPos (- x)"
      using assms by (intro roundPos_mono) simp_all
    then show ?thesis using 3 by (simp add: fl_def)
  next
    case 4
    then have "fl x < 0" by (simp add: fl_neg)
    moreover have "0 \<le> fl y"
      using 4 fl_pos [of y] by (cases "y = 0") (simp_all add: less_eq_real_def)
    ultimately show ?thesis by simp
  qed
qed

lemma roundPos_scaled_int:
  assumes "2 ^ 52 \<le> n" "n < 2 ^ 53"
  shows "roundPos (of_int n * 2 powr of_int k) = of_int n * 2 powr of_int k"
proof -
  define x :: real where "x = of_int n * 2 powr of_int k"
  have n: "(2 ^ 52 :: real) \<le> of_int n" "of_int n < (2 ^ 53 :: real)"
    using assms by (metis of_int_le_iff of_int_numeral of_int_power,
        metis of_int_less_iff of_int_numeral of_int_power)
  have pos: "0 < x"
    unfolding x_def using n by (simp add: zero_less_mult_iff)
  have lo: "2 powr of_int (k + 52) \<le> x"
  proof -
    have "(2::real) powr of_int (k + 52) = 2 ^ 52 * 2 powr of_int k"
      by (simp add: powr_add)
    also have "\<dots> \<le> x"
      unfolding x_def using n by (simp add: mult_right_mono)
    finally show ?thesis .
  qed
  have hi: "x < 2 powr (of_int (k + 52) + 1)"
  proof -
    have "x < 2 ^ 53 * 2 powr of_int k"
      unfolding x_def using n by (simp add: mult_strict_right_mono)
    also have "\<dots> = 2 powr (of_int (k + 52) + 1)"
      by (simp add: powr_add)
    finally show ?thesis .
  qed
  have e: "expo x = k + 52"
    using pos lo hi by (rule expo_eq)
  have u: "ulp x = 2 powr of_int k"
    by (simp add: ulp_def e)
  have q: "x / ulp x = of_int n"
    unfolding u by (simp add: x_def)
  have "roundPos x = x"
    unfolding roundPos_def q u by (simp add: x_def rte_int)
  then show ?thesis
    unfolding x_def .
qed

lemma roundPos_idem:
  assumes "0 < x"
  shows "roundPos (roundPos x) = roundPos x"
proof -
  define n where "n = roundTiesToEven (x / ulp x)"
  have u: "ulp x = 2 powr of_int (expo x - 52)"
    by (simp add: ulp_def)
  have r: "roundPos x = of_int n * 2 powr of_int (expo x - 52)"
    by (simp add: roundPos_def n_def ulp_def)
  have n: "2 ^ 52 \<le> n" "n \<le> 2 ^ 53"
    unfolding n_def using roundPos_scaled [OF assms] by simp_all
  show ?thesis
  proof (cases "n < 2 ^ 53")
    case True
    then show ?thesis
      unfolding r using n(1) by (rule roundPos_scaled_int [rotated])
  next
    case False
    then have top: "n = 2 ^ 53" using n(2) by simp
    have "roundPos x = of_int (2 ^ 52) * 2 powr of_int (expo x - 51)"
      unfolding r top by (simp add: powr_diff)
    moreover have "roundPos (of_int (2 ^ 52) * 2 powr of_int (expo x - 51)) =
        of_int (2 ^ 52) * 2 powr of_int (expo x - 51)"
      by (rule roundPos_scaled_int) simp_all
    ultimately show ?thesis by simp
  qed
qed

lemma fl_idem [simp]: "fl (fl x) = fl x"
proof -
  consider "0 < x" | "x = 0" | "x < 0" by linarith
  then show ?thesis
  proof cases
    case 1
    then show ?thesis
      using roundPos_pos [of x] by (simp add: fl_def roundPos_idem)
  next
    case 2
    then show ?thesis by simp
  next
    case 3
    then show ?thesis
      using roundPos_pos [of "- x"] by (simp add: fl_def roundPos_idem)
  qed
qed

lemma fl_eval:
  fixes m :: int
  assumes "0 < x" "2 ^ 52 \<le> x * 2 powr of_int m" "x * 2 powr of_int m < 2 ^ 53"
  shows "fl x = of_int (roundTiesToEven (x * 2 powr of_int m)) / 2 powr of_int m"
proof -
  have p: "(2::real) powr of_int m * 2 powr of_int (- m) = 1"
    by (simp add: powr_minus)
  have lo: "2 powr of_int (52 - m) \<le> x"
  proof -
    have "(2::real) powr of_int (52 - m) = 2 ^ 52 * 2 powr of_int (- m)"
      by (simp add: powr_diff powr_minus divide_inverse)
    also have "\<dots> \<le> (x * 2 powr of_int m) * 2 powr of_int (- m)"
      using assms(2) by (intro mult_right_mono) simp_all
    also have "\<dots> = x"
      using p by (simp add: mult.assoc)
    finally show ?thesis .
  qed
  have hi: "x < 2 powr (of_int (52 - m) + 1)"
  proof -
    have "x = (x * 2 powr of_int m) * 2 powr of_int (- m)"
      using p by (simp add: mult.assoc)
    also have "\<dots> < 2 ^ 53 * 2 powr of_int (- m)"
      using assms(3) by (intro mult_strict_right_mono) simp_all
    also have "\<dots> = 2 powr (of_int (52 - m) + 1)"
      by (simp add: powr_diff powr_minus powr_add divide_inverse)
    finally show ?thesis .
  qed
  have e: "expo x = 52 - m"
    using assms(1) lo hi by (rule expo_eq)
  have u: "ulp x = 2 powr of_int (- m)"
    by (simp add: ulp_def e)
  have q: "x / ulp x = x * 2 powr of_int m"
    unfolding u by (simp add: powr_minus divide_inverse)
  have "roundPos x = of_int (roundTiesToEven (x * 2 powr of_int m)) / 2 powr of_int m"
    unfolding roundPos_def q u by (simp add: powr_minus divide_inverse)
  then show ?thesis
    using assms(1) by (simp add: fl_def)
qed

lemma fl_eval_up:
  fixes m :: nat
  assumes "0 < x" "2 ^ 52 \<le> x * 2 ^ m" "x * 2 ^ m < 2 ^ 53"
  shows "fl x = of_int (roundTiesToEven (x * 2 ^ m)) / 2 ^ m"
  using fl_eval [of x "int m"] assms by (simp add: powr_realpow)

lemma fl_error_pos:
  assumes "0 < x"
  shows "\<bar>roundPos x - x\<bar> \<le> x / 2 ^ 53"
proof -
  define t where "t = x / ulp x"
  have x: "x = t * ulp x"
    using ulp_pos [of x] by (simp add: t_def)
  have "\<bar>of_int (roundTiesToEven t) - t\<bar> \<le> 1 / 2"
    using rte_upper [of t] rte_lower [of t] by linarith
  then have "\<bar>of_int (roundTiesToEven t) - t\<bar> * ulp x \<le> 1 / 2 * ulp x"
    using ulp_pos [of x] by (intro mult_right_mono) simp_all
  moreover have "roundPos x - x = (of_int (roundTiesToEven t) - t) * ulp x"
    using x by (simp add: roundPos_def t_def algebra_simps)
  ultimately have a: "\<bar>roundPos x - x\<bar> \<le> ulp x / 2"
    using ulp_pos [of x] by (simp add: abs_mult)
  have "ulp x * 2 ^ 52 = 2 powr of_int (expo x)"
    by (simp add: ulp_def powr_diff)
  then have "ulp x * 2 ^ 52 \<le> x"
    using expo_bounds(1) [OF assms] by simp
  then have "ulp x / 2 \<le> x / 2 ^ 53"
    by (simp add: field_simps)
  then show ?thesis using a by linarith
qed

lemma fl_error: "\<bar>fl x - x\<bar> \<le> \<bar>x\<bar> / 2 ^ 53"
proof -
  consider "0 < x" | "x = 0" | "x < 0" by linarith
  then show ?thesis
  proof cases
    case 1
    then show ?thesis using fl_error_pos [of x] by (simp add: fl_def)
  next
    case 2
    then show ?thesis by simp
  next
    case 3
    then have "\<bar>roundPos (- x) - (- x)\<bar> \<le> (- x) / 2 ^ 53"
      by (intro fl_error_pos) simp
    then show ?thesis using 3 by (simp add: fl_def abs_if split: if_splits)
  qed
qed

lemma fl_of_nat:
  assumes "n < 2 ^ 53"
  shows "fl (real n) = real n"
proof (cases "n = 0")
  case True
  then show ?thesis by simp
next
  case False
  define x where "x = real n"
  define j where "j = expo x"
  have pos: "0 < x" using False by (simp add: x_def)
  have one: "1 \<le> x" using False by (simp add: x_def)
  have lt: "x < 2 ^ 53"
    unfolding x_def using assms by (metis of_nat_less_iff of_nat_numeral of_nat_power)
  have low: "2 powr of_int j \<le> x"
    unfolding j_def using expo_bounds(1) [OF pos] .
  have j: "j \<le> 52"
  proof (rule ccontr)
    assume "\<not> j \<le> 52"
    then have "53 \<le> real_of_int j"
      by linarith
    then have "(2::real) powr 53 \<le> 2 powr of_int j"
      by (intro powr_mono) simp_all
    then show False
      using low lt by simp
  qed
  define m where "m = nat (52 - j)"
  have m: "of_int (52 - j) = real m"
    using j by (simp add: m_def)
  have "real_of_int j - 52 = - real m"
    using m by simp
  then have u: "ulp x = 2 powr (- real m)"
    unfolding ulp_def j_def [symmetric] by simp
  have q: "x / ulp x = of_int (int n * 2 ^ m)"
    unfolding u by (simp add: powr_minus divide_inverse powr_realpow x_def)
  have "roundPos x = of_int (int n * 2 ^ m) * ulp x"
    unfolding roundPos_def q rte_int ..
  also have "\<dots> = x"
    unfolding u by (simp add: powr_minus divide_inverse powr_realpow x_def)
  finally show ?thesis
    using pos by (simp add: fl_def x_def)
qed

lemma fl_numeral [simp]:
  "numeral k < (2 ^ 53 :: nat) \<Longrightarrow> fl (numeral k) = numeral k"
  using fl_of_nat [of "numeral k"] by simp

lemma fl_one [simp]: "fl 1 = 1"
  using fl_of_nat [of 1] by simp

section \<open>Properties of the aspect fit\<close>

text \<open>
  Shared facts: which branch \<open>fitTransform\<close> takes, and what a comparison of two rounded
  numbers says about the exact ones.
\<close>

lemma fitTransform_wider:
  "videoIsWider vw vh cw ch \<Longrightarrow> fitTransform vw vh cw ch = heightFit vw vh cw ch"
  by (simp add: fitTransform_def)

lemma fitTransform_not_wider:
  "\<not> videoIsWider vw vh cw ch \<Longrightarrow> fitTransform vw vh cw ch = widthFit vw vh cw ch"
  by (simp add: fitTransform_def)

lemma fl_above:
  assumes "fl q < fl p"
  shows "q < fl p"
proof (rule ccontr)
  assume "\<not> q < fl p"
  then have "fl (fl p) \<le> fl q"
    by (intro fl_mono) simp
  then show False
    using assms by simp
qed

lemma fl_below:
  assumes "fl p < fl q"
  shows "fl p < q"
proof (rule ccontr)
  assume "\<not> fl p < q"
  then have "fl q \<le> fl (fl p)"
    by (intro fl_mono) simp
  then show False
    using assms by simp
qed

lemma fl_nonneg: "0 \<le> x \<Longrightarrow> 0 \<le> fl x"
  using fl_mono [of 0 x] by simp

lemma fl_nonpos: "x \<le> 0 \<Longrightarrow> fl x \<le> 0"
  using fl_mono [of x 0] by simp

lemma fl_ge_nat: "n < 2 ^ 53 \<Longrightarrow> real n \<le> x \<Longrightarrow> real n \<le> fl x"
  using fl_mono [of "real n" x] by (simp add: fl_of_nat)

lemma fl_le_nat: "n < 2 ^ 53 \<Longrightarrow> x \<le> real n \<Longrightarrow> fl x \<le> real n"
  using fl_mono [of x "real n"] by (simp add: fl_of_nat)

text \<open>The centring offset \<open>(extent - scale) / 2\<close> when the scaled frame is not smaller.\<close>

lemma half_nonpos:
  assumes "d \<le> 0"
  shows "fdiv (fl d) 2 \<le> 0" and "d \<le> fdiv (fl d) 2"
proof -
  define y where "y = fl d / 2"
  have fd: "fl d \<le> 0"
    using assms by (rule fl_nonpos)
  then have y: "y \<le> 0"
    by (simp add: y_def)
  then show "fdiv (fl d) 2 \<le> 0"
    unfolding fdiv_def y_def [symmetric] by (rule fl_nonpos)
  have e1: "\<bar>fl d - d\<bar> \<le> \<bar>d\<bar> / 2 ^ 53"
    by (rule fl_error)
  have e2: "\<bar>fl y - y\<bar> \<le> \<bar>y\<bar> / 2 ^ 53"
    by (rule fl_error)
  have "d \<le> fl y"
    using e1 e2 assms y unfolding y_def by (simp add: abs_if split: if_splits)
  then show "d \<le> fdiv (fl d) 2"
    by (simp add: fdiv_def y_def)
qed

lemma half_abs: "\<bar>fdiv (fl d) 2\<bar> \<le> \<bar>d\<bar>"
proof -
  define y where "y = fl d / 2"
  have e1: "\<bar>fl d - d\<bar> \<le> \<bar>d\<bar> / 2 ^ 53"
    by (rule fl_error)
  have e2: "\<bar>fl y - y\<bar> \<le> \<bar>y\<bar> / 2 ^ 53"
    by (rule fl_error)
  have "\<bar>fl y\<bar> \<le> \<bar>d\<bar>"
    using e1 e2 unfolding y_def by (simp add: abs_if split: if_splits)
  then show ?thesis
    by (simp add: fdiv_def y_def)
qed

text \<open>
  When the rounded ratio of the canvas is the divisor, the quotient of line 60 is the
  canvas height up to two roundings.
\<close>

lemma tie_scale:
  assumes "0 < cw" "0 < ch"
  shows "\<bar>fdiv (real cw) (fl (real cw / real ch)) - real ch\<bar> \<le> real ch / 2 ^ 51"
proof -
  define q where "q = real cw / real ch"
  define va where "va = fl q"
  define t where "t = real cw / va"
  have q: "0 < q" "q * real ch = real cw"
    using assms by (simp_all add: q_def)
  have va: "0 < va"
    unfolding va_def using q(1) by (rule fl_pos)
  have t: "0 < t" "t * va = real cw"
    using assms va by (simp_all add: t_def)
  have "\<bar>va - q\<bar> \<le> \<bar>q\<bar> / 2 ^ 53"
    unfolding va_def by (rule fl_error)
  then have "\<bar>va - q\<bar> * real ch \<le> (\<bar>q\<bar> / 2 ^ 53) * real ch"
    by (intro mult_right_mono) simp_all
  moreover have "\<bar>va - q\<bar> * real ch = \<bar>va * real ch - real cw\<bar>"
  proof -
    have "\<bar>va - q\<bar> * real ch = \<bar>(va - q) * real ch\<bar>"
      by (simp add: abs_mult)
    also have "(va - q) * real ch = va * real ch - real cw"
      using q(2) by (simp add: left_diff_distrib)
    finally show ?thesis .
  qed
  moreover have "(\<bar>q\<bar> / 2 ^ 53) * real ch = real cw / 2 ^ 53"
    using q by simp
  ultimately have "\<bar>va * real ch - real cw\<bar> \<le> real cw / 2 ^ 53"
    by simp
  then have "\<bar>va * real ch - real cw\<bar> * t \<le> (real cw / 2 ^ 53) * t"
    using t(1) by (intro mult_right_mono) simp_all
  moreover have "\<bar>va * real ch - real cw\<bar> * t = real cw * \<bar>real ch - t\<bar>"
  proof -
    have "\<bar>va * real ch - real cw\<bar> * t = \<bar>(va * real ch - real cw) * t\<bar>"
      using t(1) by (simp add: abs_mult)
    also have "(va * real ch - real cw) * t = (t * va) * real ch - real cw * t"
      by (simp add: algebra_simps)
    also have "\<dots> = real cw * (real ch - t)"
      unfolding t(2) by (simp add: algebra_simps)
    finally show ?thesis
      by (simp add: abs_mult)
  qed
  ultimately have "real cw * \<bar>real ch - t\<bar> \<le> real cw * (t / 2 ^ 53)"
    by simp
  then have near: "\<bar>real ch - t\<bar> \<le> t / 2 ^ 53"
    using assms by simp
  have "\<bar>fl t - t\<bar> \<le> \<bar>t\<bar> / 2 ^ 53"
    by (rule fl_error)
  then have "\<bar>fl t - real ch\<bar> \<le> real ch / 2 ^ 51"
    using near t(1) by (simp add: abs_if split: if_splits)
  then show ?thesis
    by (simp add: fdiv_def t_def va_def q_def)
qed

text \<open>
  C1, as stated, fails. For a video of 1280 by 720 on a canvas of 400 by 800 the test of
  line 51 holds (1.78 > 0.5), the frame is scaled to the canvas height and is then 1422
  wide: the landmark with normalized x = 0 is drawn at x = -511.11, left of the canvas,
  and the non-zero offset is negative.
\<close>

lemma fit_1280_720_400_800:
  "videoIsWider 1280 720 400 800"
  "fitTransform 1280 720 400 800 =
     \<lparr> scaleX = 3127499741229511 / 2 ^ 41, scaleY = 800,
       offsetX = - (2247890439008711 / 2 ^ 42), offsetY = 0 \<rparr>"
proof -
  have va: "fl (1280 / 720) = 2001599834386887 / 2 ^ 50"
    by (subst fl_eval_up [of _ 52]) (simp_all add: roundTiesToEven_def)
  have ca: "fl (400 / 800) = 1 / 2"
    by (subst fl_eval_up [of _ 53]) (simp_all add: roundTiesToEven_def)
  have sx: "fl (800 * (2001599834386887 / 2 ^ 50)) = 3127499741229511 / 2 ^ 41"
    by (subst fl_eval_up [of _ 42]) (simp_all add: roundTiesToEven_def)
  have d: "fl (2247890439008711 / 2 ^ 41) = 2247890439008711 / 2 ^ 41"
    by (subst fl_eval_up [of _ 43]) (simp_all add: roundTiesToEven_def)
  have o: "fl (2247890439008711 / 2 ^ 42) = 2247890439008711 / 2 ^ 42"
    by (subst fl_eval_up [of _ 44]) (simp_all add: roundTiesToEven_def)
  have dm: "fl (400 - 3127499741229511 / 2 ^ 41) = - (2247890439008711 / 2 ^ 41)"
  proof -
    have "400 - 3127499741229511 / 2 ^ 41 = - (2247890439008711 / 2 ^ 41 :: real)"
      by simp
    then show ?thesis
      by (simp only: fl_minus d)
  qed
  have om: "fl (- (2247890439008711 / 2 ^ 41) / 2) = - (2247890439008711 / 2 ^ 42)"
  proof -
    have "- (2247890439008711 / 2 ^ 41) / 2 = - (2247890439008711 / 2 ^ 42 :: real)"
      by simp
    then show ?thesis
      by (simp only: fl_minus o)
  qed
  show w: "videoIsWider 1280 720 400 800"
    unfolding videoIsWider_def videoAspect_def canvasAspect_def fdiv_def
    by (simp only: of_nat_numeral va ca) simp
  show "fitTransform 1280 720 400 800 =
     \<lparr> scaleX = 3127499741229511 / 2 ^ 41, scaleY = 800,
       offsetX = - (2247890439008711 / 2 ^ 42), offsetY = 0 \<rparr>"
    unfolding fitTransform_wider [OF w] heightFit_def videoAspect_def fdiv_def fmul_def fsub_def
    by (simp only: of_nat_numeral va sx dm om)
qed

theorem C1_fit_crops_counterexample:
  "\<not> (0 \<le> toCanvasX (fitTransform 1280 720 400 800) 0)
   \<and> \<not> (0 \<le> offsetX (fitTransform 1280 720 400 800))"
proof -
  have o: "fl (2247890439008711 / 2 ^ 42) = 2247890439008711 / 2 ^ 42"
    by (subst fl_eval_up [of _ 44]) (simp_all add: roundTiesToEven_def)
  have ox: "offsetX (fitTransform 1280 720 400 800) = - (2247890439008711 / 2 ^ 42)"
    unfolding fit_1280_720_400_800(2) by simp
  have "toCanvasX (fitTransform 1280 720 400 800) 0 =
      fl (offsetX (fitTransform 1280 720 400 800))"
    by (simp add: toCanvasX_def fadd_def fmul_def)
  also have "\<dots> = - (2247890439008711 / 2 ^ 42)"
    by (simp only: ox fl_minus o)
  finally show ?thesis
    using ox by simp
qed

lemma videoAspect_pos: "0 < vw \<Longrightarrow> 0 < vh \<Longrightarrow> 0 < videoAspect vw vh"
  by (simp add: videoAspect_def fdiv_def fl_pos)

lemma toCanvasX_zero: "toCanvasX tf 0 = fl (offsetX tf)"
  by (simp add: toCanvasX_def fadd_def fmul_def)

lemma toCanvasY_zero: "toCanvasY tf 0 = fl (offsetY tf)"
  by (simp add: toCanvasY_def fadd_def fmul_def)

lemma toCanvasX_one: "toCanvasX tf 1 = fl (fl (scaleX tf) + offsetX tf)"
  by (simp add: toCanvasX_def fadd_def fmul_def)

lemma toCanvasY_one: "toCanvasY tf 1 = fl (fl (scaleY tf) + offsetY tf)"
  by (simp add: toCanvasY_def fadd_def fmul_def)

text \<open>The three cases of the fit: the video relatively wider, narrower, or neither.\<close>

lemma fit_wider:
  assumes pos: "0 < vw" "0 < vh" "0 < cw" "0 < ch"
    and rep: "cw < 2 ^ 53" "ch < 2 ^ 53"
    and gt: "canvasAspect cw ch < videoAspect vw vh"
  shows "scaleY (fitTransform vw vh cw ch) = real ch"
    and "offsetY (fitTransform vw vh cw ch) = 0"
    and "real cw \<le> scaleX (fitTransform vw vh cw ch)"
    and "offsetX (fitTransform vw vh cw ch) \<le> 0"
    and "toCanvasX (fitTransform vw vh cw ch) 0 \<le> 0"
    and "real cw \<le> toCanvasX (fitTransform vw vh cw ch) 1"
proof -
  define va where "va = videoAspect vw vh"
  define sx where "sx = fl (real ch * va)"
  define ox where "ox = fdiv (fl (real cw - sx)) 2"
  have w: "videoIsWider vw vh cw ch"
    using gt pos by (simp add: videoIsWider_def)
  have fit: "fitTransform vw vh cw ch =
      \<lparr> scaleX = sx, scaleY = real ch, offsetX = ox, offsetY = 0 \<rparr>"
    unfolding fitTransform_wider [OF w]
    by (simp add: heightFit_def fmul_def fsub_def sx_def ox_def va_def)
  have "real cw / real ch < va"
    using gt unfolding va_def canvasAspect_def videoAspect_def fdiv_def by (rule fl_above)
  then have "real cw < real ch * va"
    using pos by (simp add: pos_divide_less_eq mult.commute)
  then have sx: "real cw \<le> sx"
    unfolding sx_def using rep(1) by (intro fl_ge_nat) simp_all
  then have d: "real cw - sx \<le> 0"
    by simp
  have ox: "ox \<le> 0" "real cw - sx \<le> ox"
    unfolding ox_def using half_nonpos [OF d] by simp_all
  have oxr: "fl ox = ox"
    by (simp add: ox_def fdiv_def)
  have sxr: "fl sx = sx"
    by (simp add: sx_def)
  show "scaleY (fitTransform vw vh cw ch) = real ch"
    and "offsetY (fitTransform vw vh cw ch) = 0"
    and "real cw \<le> scaleX (fitTransform vw vh cw ch)"
    and "offsetX (fitTransform vw vh cw ch) \<le> 0"
    using sx ox by (simp_all add: fit)
  show "toCanvasX (fitTransform vw vh cw ch) 0 \<le> 0"
    using ox(1) by (simp add: toCanvasX_zero fit oxr)
  have "real cw \<le> sx + ox"
    using ox(2) by simp
  then have "real cw \<le> fl (sx + ox)"
    using rep(1) by (intro fl_ge_nat) simp_all
  then show "real cw \<le> toCanvasX (fitTransform vw vh cw ch) 1"
    by (simp add: toCanvasX_one fit sxr)
qed

lemma fit_narrower:
  assumes pos: "0 < vw" "0 < vh" "0 < cw" "0 < ch"
    and rep: "cw < 2 ^ 53" "ch < 2 ^ 53"
    and lt: "videoAspect vw vh < canvasAspect cw ch"
  shows "scaleX (fitTransform vw vh cw ch) = real cw"
    and "offsetX (fitTransform vw vh cw ch) = 0"
    and "real ch \<le> scaleY (fitTransform vw vh cw ch)"
    and "offsetY (fitTransform vw vh cw ch) \<le> 0"
    and "toCanvasY (fitTransform vw vh cw ch) 0 \<le> 0"
    and "real ch \<le> toCanvasY (fitTransform vw vh cw ch) 1"
proof -
  define va where "va = videoAspect vw vh"
  define sy where "sy = fl (real cw / va)"
  define oy where "oy = fdiv (fl (real ch - sy)) 2"
  have va: "0 < va"
    unfolding va_def using pos by (simp add: videoAspect_pos)
  have w: "\<not> videoIsWider vw vh cw ch"
    using lt by (simp add: videoIsWider_def)
  have fit: "fitTransform vw vh cw ch =
      \<lparr> scaleX = real cw, scaleY = sy, offsetX = 0, offsetY = oy \<rparr>"
    unfolding fitTransform_not_wider [OF w]
    by (simp add: widthFit_def fdiv_def fsub_def sy_def oy_def va_def)
  have "va < real cw / real ch"
    using lt unfolding va_def canvasAspect_def videoAspect_def fdiv_def by (rule fl_below)
  then have "va * real ch < real cw"
    using pos by (simp add: pos_less_divide_eq)
  then have "real ch < real cw / va"
    using va by (simp add: pos_less_divide_eq mult.commute)
  then have sy: "real ch \<le> sy"
    unfolding sy_def using rep(2) by (intro fl_ge_nat) simp_all
  then have d: "real ch - sy \<le> 0"
    by simp
  have oy: "oy \<le> 0" "real ch - sy \<le> oy"
    unfolding oy_def using half_nonpos [OF d] by simp_all
  have oyr: "fl oy = oy"
    by (simp add: oy_def fdiv_def)
  have syr: "fl sy = sy"
    by (simp add: sy_def)
  show "scaleX (fitTransform vw vh cw ch) = real cw"
    and "offsetX (fitTransform vw vh cw ch) = 0"
    and "real ch \<le> scaleY (fitTransform vw vh cw ch)"
    and "offsetY (fitTransform vw vh cw ch) \<le> 0"
    using sy oy by (simp_all add: fit)
  show "toCanvasY (fitTransform vw vh cw ch) 0 \<le> 0"
    using oy(1) by (simp add: toCanvasY_zero fit oyr)
  have "real ch \<le> sy + oy"
    using oy(2) by simp
  then have "real ch \<le> fl (sy + oy)"
    using rep(2) by (intro fl_ge_nat) simp_all
  then show "real ch \<le> toCanvasY (fitTransform vw vh cw ch) 1"
    by (simp add: toCanvasY_one fit syr)
qed

lemma fit_tie:
  assumes pos: "0 < vw" "0 < vh" "0 < cw" "0 < ch"
    and eq: "videoAspect vw vh = canvasAspect cw ch"
  shows "\<not> videoIsWider vw vh cw ch"
    and "fitTransform vw vh cw ch = widthFit vw vh cw ch"
    and "\<bar>scaleY (fitTransform vw vh cw ch) - real ch\<bar> \<le> real ch / 2 ^ 51"
    and "\<bar>offsetY (fitTransform vw vh cw ch)\<bar> \<le> real ch / 2 ^ 51"
proof -
  show w: "\<not> videoIsWider vw vh cw ch"
    using eq by (simp add: videoIsWider_def)
  show fit: "fitTransform vw vh cw ch = widthFit vw vh cw ch"
    using w by (rule fitTransform_not_wider)
  have sy: "\<bar>fdiv (real cw) (videoAspect vw vh) - real ch\<bar> \<le> real ch / 2 ^ 51"
    unfolding eq canvasAspect_def fdiv_def [of "real cw" "real ch"]
    using pos(3,4) by (rule tie_scale)
  then show "\<bar>scaleY (fitTransform vw vh cw ch) - real ch\<bar> \<le> real ch / 2 ^ 51"
    by (simp add: fit widthFit_def)
  have "\<bar>fdiv (fl (real ch - fdiv (real cw) (videoAspect vw vh))) 2\<bar>
      \<le> \<bar>real ch - fdiv (real cw) (videoAspect vw vh)\<bar>"
    by (rule half_abs)
  then have "\<bar>fdiv (fl (real ch - fdiv (real cw) (videoAspect vw vh))) 2\<bar>
      \<le> real ch / 2 ^ 51"
    using sy abs_minus_commute [of "real ch" "fdiv (real cw) (videoAspect vw vh)"]
    by linarith
  then show "\<bar>offsetY (fitTransform vw vh cw ch)\<bar> \<le> real ch / 2 ^ 51"
    by (simp add: fit widthFit_def fsub_def)
qed

lemma fitted_axis:
  assumes "n < 2 ^ 53" "0 \<le> u" "u \<le> 1"
  shows "0 \<le> fadd (fmul u (real n)) 0" and "fadd (fmul u (real n)) 0 \<le> real n"
proof -
  have "0 \<le> u * real n"
    using assms by simp
  then show "0 \<le> fadd (fmul u (real n)) 0"
    by (simp add: fadd_def fmul_def fl_nonneg)
  have "u * real n \<le> real n"
    using assms by (simp add: mult_left_le_one_le)
  then have "fl (u * real n) \<le> real n"
    using assms(1) by (intro fl_le_nat) simp_all
  then show "fadd (fmul u (real n)) 0 \<le> real n"
    by (simp add: fadd_def fmul_def)
qed

text \<open>
  C1, amended. For every video intrinsic size and canvas size with positive dimensions
  (canvas sizes below 2^53, as every DOM size is), the FitTransform computed by the
  render routine makes the frame cover the canvas instead of fitting inside it. One
  axis is fitted exactly: its offset is 0 and its scale is the canvas extent, and on
  that axis every normalized coordinate in [0,1] lands within the canvas. When the two
  computed aspect ratios differ, the other axis is cropped: both offsets are at most 0,
  both scales are at least the canvas extent, and the images of the normalized
  coordinates 0 and 1 lie at or before 0 and at or beyond the canvas extent. When the
  computed aspect ratios are equal, the width is the fitted axis and the scaled height
  and the vertical offset differ from the canvas height and from 0 by at most the
  canvas height times 2^-51, a rounding error of either sign.
\<close>

theorem C1_fit_covers_canvas:
  assumes "0 < vw" "0 < vh" "0 < cw" "0 < ch" "cw < 2 ^ 53" "ch < 2 ^ 53"
  shows "(offsetX (fitTransform vw vh cw ch) = 0 \<and> scaleX (fitTransform vw vh cw ch) = real cw
        \<or> offsetY (fitTransform vw vh cw ch) = 0 \<and> scaleY (fitTransform vw vh cw ch) = real ch)
    \<and> (videoAspect vw vh \<noteq> canvasAspect cw ch \<longrightarrow>
          offsetX (fitTransform vw vh cw ch) \<le> 0
        \<and> offsetY (fitTransform vw vh cw ch) \<le> 0
        \<and> real cw \<le> scaleX (fitTransform vw vh cw ch)
        \<and> real ch \<le> scaleY (fitTransform vw vh cw ch)
        \<and> toCanvasX (fitTransform vw vh cw ch) 0 \<le> 0
        \<and> real cw \<le> toCanvasX (fitTransform vw vh cw ch) 1
        \<and> toCanvasY (fitTransform vw vh cw ch) 0 \<le> 0
        \<and> real ch \<le> toCanvasY (fitTransform vw vh cw ch) 1)
    \<and> (videoAspect vw vh = canvasAspect cw ch \<longrightarrow>
          offsetX (fitTransform vw vh cw ch) = 0
        \<and> scaleX (fitTransform vw vh cw ch) = real cw
        \<and> \<bar>scaleY (fitTransform vw vh cw ch) - real ch\<bar> \<le> real ch / 2 ^ 51
        \<and> \<bar>offsetY (fitTransform vw vh cw ch)\<bar> \<le> real ch / 2 ^ 51)
    \<and> (0 \<le> u \<and> u \<le> 1
        \<and> offsetX (fitTransform vw vh cw ch) = 0 \<and> scaleX (fitTransform vw vh cw ch) = real cw \<longrightarrow>
          0 \<le> toCanvasX (fitTransform vw vh cw ch) u
        \<and> toCanvasX (fitTransform vw vh cw ch) u \<le> real cw)
    \<and> (0 \<le> u \<and> u \<le> 1
        \<and> offsetY (fitTransform vw vh cw ch) = 0 \<and> scaleY (fitTransform vw vh cw ch) = real ch \<longrightarrow>
          0 \<le> toCanvasY (fitTransform vw vh cw ch) u
        \<and> toCanvasY (fitTransform vw vh cw ch) u \<le> real ch)"
proof -
  define tf where "tf = fitTransform vw vh cw ch"
  have axisX: "0 \<le> u \<and> u \<le> 1 \<and> offsetX tf = 0 \<and> scaleX tf = real cw \<longrightarrow>
      0 \<le> toCanvasX tf u \<and> toCanvasX tf u \<le> real cw"
    using fitted_axis [of cw u] assms(5) by (simp add: toCanvasX_def)
  have axisY: "0 \<le> u \<and> u \<le> 1 \<and> offsetY tf = 0 \<and> scaleY tf = real ch \<longrightarrow>
      0 \<le> toCanvasY tf u \<and> toCanvasY tf u \<le> real ch"
    using fitted_axis [of ch u] assms(6) by (simp add: toCanvasY_def)
  have rc: "fl (real cw) = real cw" "fl (real ch) = real ch"
    using assms(5,6) by (simp_all add: fl_of_nat)
  consider (wider) "canvasAspect cw ch < videoAspect vw vh"
    | (narrower) "videoAspect vw vh < canvasAspect cw ch"
    | (tie) "videoAspect vw vh = canvasAspect cw ch"
    by linarith
  then have main: "(offsetX tf = 0 \<and> scaleX tf = real cw \<or> offsetY tf = 0 \<and> scaleY tf = real ch)
    \<and> (videoAspect vw vh \<noteq> canvasAspect cw ch \<longrightarrow>
          offsetX tf \<le> 0 \<and> offsetY tf \<le> 0 \<and> real cw \<le> scaleX tf \<and> real ch \<le> scaleY tf
        \<and> toCanvasX tf 0 \<le> 0 \<and> real cw \<le> toCanvasX tf 1
        \<and> toCanvasY tf 0 \<le> 0 \<and> real ch \<le> toCanvasY tf 1)
    \<and> (videoAspect vw vh = canvasAspect cw ch \<longrightarrow>
          offsetX tf = 0 \<and> scaleX tf = real cw
        \<and> \<bar>scaleY tf - real ch\<bar> \<le> real ch / 2 ^ 51 \<and> \<bar>offsetY tf\<bar> \<le> real ch / 2 ^ 51)"
  proof cases
    case wider
    note f = fit_wider [OF assms wider, folded tf_def]
    have "toCanvasY tf 0 \<le> 0" "real ch \<le> toCanvasY tf 1"
      using f(1,2) rc by (simp_all add: toCanvasY_zero toCanvasY_one)
    then show ?thesis
      using wider f by simp
  next
    case narrower
    note f = fit_narrower [OF assms narrower, folded tf_def]
    have "toCanvasX tf 0 \<le> 0" "real cw \<le> toCanvasX tf 1"
      using f(1,2) rc by (simp_all add: toCanvasX_zero toCanvasX_one)
    then show ?thesis
      using narrower f by simp
  next
    case tie
    note f = fit_tie [OF assms(1-4) tie, folded tf_def]
    have "offsetX tf = 0" "scaleX tf = real cw"
      by (simp_all add: f(2) widthFit_def)
    then show ?thesis
      using tie f(3,4) by simp
  qed
  show ?thesis
    using main axisX axisY unfolding tf_def by blast
qed

theorem C1_fit_covers_canvas_witness:
  "(0::nat) < 1280 \<and> (0::nat) < 720 \<and> (0::nat) < 400 \<and> (0::nat) < 800
   \<and> (400::nat) < 2 ^ 53 \<and> (800::nat) < 2 ^ 53
   \<and> videoAspect 1280 720 \<noteq> canvasAspect 400 800
   \<and> offsetY (fitTransform 1280 720 400 800) = 0
   \<and> scaleY (fitTransform 1280 720 400 800) = 800
   \<and> offsetX (fitTransform 1280 720 400 800) \<le> 0
   \<and> 400 \<le> scaleX (fitTransform 1280 720 400 800)
   \<and> toCanvasX (fitTransform 1280 720 400 800) 0 \<le> 0
   \<and> 400 \<le> toCanvasX (fitTransform 1280 720 400 800) 1
   \<and> 0 \<le> toCanvasY (fitTransform 1280 720 400 800) (1 / 2)
   \<and> toCanvasY (fitTransform 1280 720 400 800) (1 / 2) \<le> 800
   \<and> videoAspect 352 288 = canvasAspect 440 360
   \<and> offsetX (fitTransform 352 288 440 360) = 0
   \<and> scaleX (fitTransform 352 288 440 360) = 440
   \<and> \<bar>scaleY (fitTransform 352 288 440 360) - 360\<bar> \<le> 360 / 2 ^ 51
   \<and> \<bar>offsetY (fitTransform 352 288 440 360)\<bar> \<le> 360 / 2 ^ 51"
proof -
  have ne: "videoAspect 1280 720 \<noteq> canvasAspect 400 800"
    using fit_1280_720_400_800(1) by (simp add: videoIsWider_def)
  have y: "offsetY (fitTransform 1280 720 400 800) = 0"
    "scaleY (fitTransform 1280 720 400 800) = 800"
    by (simp_all add: fit_1280_720_400_800(2))
  have half: "(0::real) \<le> 1 / 2 \<and> (1::real) / 2 \<le> 1"
    by simp
  have eq: "videoAspect 352 288 = canvasAspect 440 360"
    by (simp add: videoAspect_def canvasAspect_def fdiv_def)
  have bound: "(400::nat) < 2 ^ 53" "(800::nat) < 2 ^ 53" "(440::nat) < 2 ^ 53" "(360::nat) < 2 ^ 53"
    by simp_all
  have a: "offsetX (fitTransform 1280 720 400 800) \<le> 0
      \<and> 400 \<le> scaleX (fitTransform 1280 720 400 800)
      \<and> toCanvasX (fitTransform 1280 720 400 800) 0 \<le> 0
      \<and> 400 \<le> toCanvasX (fitTransform 1280 720 400 800) 1
      \<and> 0 \<le> toCanvasY (fitTransform 1280 720 400 800) (1 / 2)
      \<and> toCanvasY (fitTransform 1280 720 400 800) (1 / 2) \<le> 800"
    using C1_fit_covers_canvas [of 1280 720 400 800 "1 / 2"] ne y half bound(1,2) by simp
  have b: "offsetX (fitTransform 352 288 440 360) = 0
      \<and> scaleX (fitTransform 352 288 440 360) = 440
      \<and> \<bar>scaleY (fitTransform 352 288 440 360) - 360\<bar> \<le> 360 / 2 ^ 51
      \<and> \<bar>offsetY (fitTransform 352 288 440 360)\<bar> \<le> 360 / 2 ^ 51"
    using C1_fit_covers_canvas [of 352 288 440 360 0] eq bound(3,4) by simp
  show ?thesis
    using ne y eq a b by simp
qed

text \<open>
  C3, as stated, fails. For a video of 1280 by 720 on a canvas of 600 by 600 the test
  of line 51 holds (1.78 > 1), so the branch that fits the height runs, not the one that
  fits the width, and none of the four values is the stated one.
\<close>

lemma fit_1280_720_600_600:
  "videoIsWider 1280 720 600 600"
  "fitTransform 1280 720 600 600 =
     \<lparr> scaleX = 2345624805922133 / 2 ^ 41, scaleY = 600,
       offsetX = - (1026210852590933 / 2 ^ 42), offsetY = 0 \<rparr>"
proof -
  have va: "fl (1280 / 720) = 2001599834386887 / 2 ^ 50"
    by (subst fl_eval_up [of _ 52]) (simp_all add: roundTiesToEven_def)
  have ca: "fl (600 / 600) = 1"
    by simp
  have sx: "fl (600 * (2001599834386887 / 2 ^ 50)) = 2345624805922133 / 2 ^ 41"
    by (subst fl_eval_up [of _ 42]) (simp_all add: roundTiesToEven_def)
  have d: "fl (1026210852590933 / 2 ^ 41) = 1026210852590933 / 2 ^ 41"
    by (subst fl_eval_up [of _ 44]) (simp_all add: roundTiesToEven_def)
  have o: "fl (1026210852590933 / 2 ^ 42) = 1026210852590933 / 2 ^ 42"
    by (subst fl_eval_up [of _ 45]) (simp_all add: roundTiesToEven_def)
  have dm: "fl (600 - 2345624805922133 / 2 ^ 41) = - (1026210852590933 / 2 ^ 41)"
  proof -
    have "600 - 2345624805922133 / 2 ^ 41 = - (1026210852590933 / 2 ^ 41 :: real)"
      by simp
    then show ?thesis
      by (simp only: fl_minus d)
  qed
  have om: "fl (- (1026210852590933 / 2 ^ 41) / 2) = - (1026210852590933 / 2 ^ 42)"
  proof -
    have "- (1026210852590933 / 2 ^ 41) / 2 = - (1026210852590933 / 2 ^ 42 :: real)"
      by simp
    then show ?thesis
      by (simp only: fl_minus o)
  qed
  show w: "videoIsWider 1280 720 600 600"
    unfolding videoIsWider_def videoAspect_def canvasAspect_def fdiv_def
    by (simp only: of_nat_numeral va ca) simp
  show "fitTransform 1280 720 600 600 =
     \<lparr> scaleX = 2345624805922133 / 2 ^ 41, scaleY = 600,
       offsetX = - (1026210852590933 / 2 ^ 42), offsetY = 0 \<rparr>"
    unfolding fitTransform_wider [OF w] heightFit_def videoAspect_def fdiv_def fmul_def fsub_def
    by (simp only: of_nat_numeral va sx dm om)
qed

theorem C3_square_canvas_counterexample:
  "videoIsWider 1280 720 600 600
   \<and> scaleX (fitTransform 1280 720 600 600) \<noteq> 600
   \<and> scaleY (fitTransform 1280 720 600 600) \<noteq> 337.5
   \<and> offsetX (fitTransform 1280 720 600 600) \<noteq> 0
   \<and> offsetY (fitTransform 1280 720 600 600) \<noteq> 131.25"
  using fit_1280_720_600_600(1) by (simp add: fit_1280_720_600_600(2))

text \<open>
  C3, amended. For the video size 1280 by 720 and the canvas size 600 by 600 the fit
  takes the height-fit branch and yields scaleY = 600, scaleX = 600 * (1280 / 720),
  about 1066.67 (the number 1066.6666666666665, within 10^-12 of 3200 / 3),
  offsetX = (600 - scaleX) / 2, about -233.33 (the number -233.33333333333326, within
  10^-12 of - 700 / 3) and offsetY = 0.
\<close>

theorem C3_square_canvas:
  "videoIsWider 1280 720 600 600
   \<and> fitTransform 1280 720 600 600 = heightFit 1280 720 600 600
   \<and> fitTransform 1280 720 600 600 =
       \<lparr> scaleX = 2345624805922133 / 2 ^ 41, scaleY = 600,
         offsetX = - (1026210852590933 / 2 ^ 42), offsetY = 0 \<rparr>
   \<and> \<bar>scaleX (fitTransform 1280 720 600 600) - 3200 / 3\<bar> < 1 / 10 ^ 12
   \<and> \<bar>offsetX (fitTransform 1280 720 600 600) - (- 700 / 3)\<bar> < 1 / 10 ^ 12"
proof -
  have "fitTransform 1280 720 600 600 = heightFit 1280 720 600 600"
    using fit_1280_720_600_600(1) by (rule fitTransform_wider)
  moreover have "\<bar>scaleX (fitTransform 1280 720 600 600) - 3200 / 3\<bar> < 1 / 10 ^ 12"
    by (simp add: fit_1280_720_600_600(2))
  moreover have "\<bar>offsetX (fitTransform 1280 720 600 600) - (- 700 / 3)\<bar> < 1 / 10 ^ 12"
    by (simp add: fit_1280_720_600_600(2))
  ultimately show ?thesis
    using fit_1280_720_600_600 by simp
qed

text \<open>
  C4, as stated, fails. A video of 352 by 288 and a canvas of 33 by 27 have equal
  aspect ratios (11 : 9). The strict test of line 51 is false there, so the else branch,
  which fits the width, runs, and its rounded division gives scaleY =
  26.999999999999996 and offsetY = 2^-49 (about 1.78e-15), not the canvas height 27 and
  0 that the height-fit branch assigns.
\<close>

lemma fit_352_288_33_27:
  "\<not> videoIsWider 352 288 33 27"
  "fitTransform 352 288 33 27 =
     \<lparr> scaleX = 33, scaleY = 7599824371187711 / 2 ^ 48,
       offsetX = 0, offsetY = 1 / 2 ^ 49 \<rparr>"
proof -
  have va: "fl (352 / 288) = 1376099886140985 / 2 ^ 50"
    by (subst fl_eval_up [of _ 52]) (simp_all add: roundTiesToEven_def)
  have sy: "fl (33 / (1376099886140985 / 2 ^ 50)) = 7599824371187711 / 2 ^ 48"
    by (subst fl_eval_up [of _ 48]) (simp_all add: roundTiesToEven_def)
  have d: "fl (27 - 7599824371187711 / 2 ^ 48) = 1 / 2 ^ 48"
    by (subst fl_eval_up [of _ 100]) (simp_all add: roundTiesToEven_def)
  have o: "fl (1 / 2 ^ 48 / 2) = 1 / 2 ^ 49"
    by (subst fl_eval_up [of _ 101]) (simp_all add: roundTiesToEven_def)
  show w: "\<not> videoIsWider 352 288 33 27"
    by (simp add: videoIsWider_def videoAspect_def canvasAspect_def fdiv_def)
  show "fitTransform 352 288 33 27 =
     \<lparr> scaleX = 33, scaleY = 7599824371187711 / 2 ^ 48,
       offsetX = 0, offsetY = 1 / 2 ^ 49 \<rparr>"
    unfolding fitTransform_not_wider [OF w] widthFit_def videoAspect_def fdiv_def fsub_def
    by (simp only: of_nat_numeral va sy d o)
qed

theorem C4_tie_counterexample:
  "(352 :: real) / 288 = 33 / 27
   \<and> videoAspect 352 288 = canvasAspect 33 27
   \<and> \<not> videoIsWider 352 288 33 27
   \<and> scaleY (fitTransform 352 288 33 27) \<noteq> 27
   \<and> offsetY (fitTransform 352 288 33 27) \<noteq> 0
   \<and> fitTransform 352 288 33 27 \<noteq> heightFit 352 288 33 27"
proof -
  have "videoAspect 352 288 = canvasAspect 33 27"
    by (simp add: videoAspect_def canvasAspect_def fdiv_def)
  moreover have "scaleY (fitTransform 352 288 33 27) \<noteq> 27"
    by (simp add: fit_352_288_33_27(2))
  moreover have "offsetY (fitTransform 352 288 33 27) \<noteq> 0"
    by (simp add: fit_352_288_33_27(2))
  moreover have "scaleY (heightFit 352 288 33 27) = 27"
    by (simp add: heightFit_def)
  ultimately show ?thesis
    using fit_352_288_33_27(1) by auto
qed

text \<open>
  C4, amended. For every video and canvas size pair with positive dimensions whose
  aspect ratios are exactly equal, the two computed ratios are equal, the strict test
  is false and the fit takes the width-fit (else) branch: scaleX = canvas width,
  offsetX = 0, scaleY = canvas width / videoAspect and offsetY = (canvas height -
  scaleY) / 2. These two agree with the height-fit values, canvas height and 0, only
  up to rounding: each differs from them by at most the canvas height times 2^-51.
\<close>

theorem C4_tie_takes_width_fit:
  assumes "0 < vw" "0 < vh" "0 < cw" "0 < ch"
    and tie: "real vw / real vh = real cw / real ch"
  shows "videoAspect vw vh = canvasAspect cw ch
    \<and> \<not> videoIsWider vw vh cw ch
    \<and> fitTransform vw vh cw ch = widthFit vw vh cw ch
    \<and> scaleX (fitTransform vw vh cw ch) = real cw
    \<and> offsetX (fitTransform vw vh cw ch) = 0
    \<and> scaleY (fitTransform vw vh cw ch) = fl (real cw / fl (real vw / real vh))
    \<and> offsetY (fitTransform vw vh cw ch) =
        fl (fl (real ch - scaleY (fitTransform vw vh cw ch)) / 2)
    \<and> \<bar>scaleY (fitTransform vw vh cw ch) - real ch\<bar> \<le> real ch / 2 ^ 51
    \<and> \<bar>offsetY (fitTransform vw vh cw ch)\<bar> \<le> real ch / 2 ^ 51"
proof -
  have eq: "videoAspect vw vh = canvasAspect cw ch"
    using tie by (simp add: videoAspect_def canvasAspect_def fdiv_def)
  note f = fit_tie [OF assms(1-4) eq]
  have vals: "scaleX (fitTransform vw vh cw ch) = real cw"
    "offsetX (fitTransform vw vh cw ch) = 0"
    "scaleY (fitTransform vw vh cw ch) = fl (real cw / fl (real vw / real vh))"
    "offsetY (fitTransform vw vh cw ch) =
        fl (fl (real ch - scaleY (fitTransform vw vh cw ch)) / 2)"
    by (simp_all add: f(2) widthFit_def videoAspect_def fdiv_def fsub_def)
  show ?thesis
    using eq f vals by blast
qed

theorem C4_tie_takes_width_fit_witness:
  "(0::nat) < 352 \<and> (0::nat) < 288 \<and> (0::nat) < 440 \<and> (0::nat) < 360
   \<and> real 352 / real 288 = real 440 / real 360
   \<and> \<not> videoIsWider 352 288 440 360
   \<and> scaleX (fitTransform 352 288 440 360) = 440
   \<and> offsetX (fitTransform 352 288 440 360) = 0
   \<and> \<bar>scaleY (fitTransform 352 288 440 360) - 360\<bar> \<le> 360 / 2 ^ 51
   \<and> \<bar>offsetY (fitTransform 352 288 440 360)\<bar> \<le> 360 / 2 ^ 51"
proof -
  have tie: "real 352 / real 288 = real 440 / real 360"
    by simp
  show ?thesis
    using tie C4_tie_takes_width_fit [of 352 288 440 360] by auto
qed

section \<open>Properties of the connection graph\<close>

text \<open>
  C9, as stated, fails: the list of lines 139-146 has 21 entries, not 20.
\<close>

theorem C9_edge_count_counterexample:
  "length connections \<noteq> 20"
  by (simp add: connections_def)

text \<open>
  C9, amended. The hardcoded connection graph consists of exactly 21 edges over the 21
  landmark indices 0..20: the thumb, index, middle, ring and pinky chains of four edges
  each, in this order, and then the one edge from the wrist (0) to the base of the
  pinky (17).
\<close>

theorem C9_edges:
  "length connections = 21
   \<and> connections =
       chain [0, 1, 2, 3, 4] @ chain [0, 5, 6, 7, 8] @ chain [5, 9, 10, 11, 12]
       @ chain [9, 13, 14, 15, 16] @ chain [13, 17, 18, 19, 20] @ [(0, 17)]
   \<and> set (map fst connections) \<union> set (map snd connections) = {0..20}"
proof (intro conjI)
  show "length connections = 21"
    by (simp add: connections_def)
  show "connections =
       chain [0, 1, 2, 3, 4] @ chain [0, 5, 6, 7, 8] @ chain [5, 9, 10, 11, 12]
       @ chain [9, 13, 14, 15, 16] @ chain [13, 17, 18, 19, 20] @ [(0, 17)]"
    by (simp add: connections_def chain_def)
  show "set (map fst connections) \<union> set (map snd connections) = {0..20}"
    apply (auto simp: connections_def)
    apply arith
    done
qed


section \<open>Properties of the drawing\<close>

lemma forEach_calls:
  "forEach (\<lambda>c. calls (g c)) cs = calls (concat (map g cs))"
  by (induction cs) (simp_all add: calls_def andThen_def)

lemma slotAt_missing:
  "slotAt lms i = None \<longleftrightarrow> missing lms i"
  by (simp add: slotAt_def missing_def)

lemma slotAt_present:
  "\<not> missing lms i \<Longrightarrow> slotAt lms i = Some (the (lms ! i))"
  by (auto simp add: slotAt_def missing_def)

lemma segment_stroke:
  "segment tf a b =
     [MoveTo (fl (fl (lmX a * scaleX tf) + offsetX tf)) (fl (fl (lmY a * scaleY tf) + offsetY tf)),
      LineTo (fl (fl (lmX b * scaleX tf) + offsetX tf)) (fl (fl (lmY b * scaleY tf) + offsetY tf))]"
  by (simp add: segment_def toCanvasX_def toCanvasY_def fadd_def fmul_def)

lemma drawConnection_calls:
  "drawConnection tf lms c =
     calls (if missing lms (fst c) \<or> missing lms (snd c) then [] else edgeStroke tf lms c)"
  by (simp add: drawConnection_def bothPresent_def slotAt_missing slotAt_present
      segment_stroke edgeStroke_def canvasPoint_def)

lemma concat_map_if_filter:
  "concat (map (\<lambda>c. if P c then [] else g c) cs) = concat (map g (filter (\<lambda>c. \<not> P c) cs))"
  by (induction cs) simp_all

text \<open>
  C6. For every landmark array (so also for one of 21 slots with entries missing),
  the connection-drawing step raises no exception and draws exactly the edges of the
  connection list whose two endpoints both hold a landmark, in list order: an edge is
  skipped if and only if one of its endpoints is missing, and an edge that is drawn is
  one \<^verbatim>\<open>moveTo\<close> to the canvas position of its first landmark followed by one
  \<^verbatim>\<open>lineTo\<close> to the canvas position of its second, between one \<^verbatim>\<open>beginPath\<close> and one
  \<^verbatim>\<open>stroke\<close>.
\<close>

theorem C6_connections_skip_missing:
  "drawConnection tf lms c =
     (if missing lms (fst c) \<or> missing lms (snd c) then calls []
      else calls
        [MoveTo (fl (fl (lmX (the (lms ! fst c)) * scaleX tf) + offsetX tf))
                (fl (fl (lmY (the (lms ! fst c)) * scaleY tf) + offsetY tf)),
         LineTo (fl (fl (lmX (the (lms ! snd c)) * scaleX tf) + offsetX tf))
                (fl (fl (lmY (the (lms ! snd c)) * scaleY tf) + offsetY tf))])
   \<and> forEach (drawConnection tf lms) connections =
       calls (concat (map (edgeStroke tf lms) (presentEdges lms)))
   \<and> drawConnections tf lms =
       (BeginPath # concat (map (edgeStroke tf lms) (presentEdges lms)) @ [Stroke], None)"
proof -
  have one: "drawConnection tf lms c =
     (if missing lms (fst c) \<or> missing lms (snd c) then calls []
      else calls
        [MoveTo (fl (fl (lmX (the (lms ! fst c)) * scaleX tf) + offsetX tf))
                (fl (fl (lmY (the (lms ! fst c)) * scaleY tf) + offsetY tf)),
         LineTo (fl (fl (lmX (the (lms ! snd c)) * scaleX tf) + offsetX tf))
                (fl (fl (lmY (the (lms ! snd c)) * scaleY tf) + offsetY tf))])"
    by (simp add: drawConnection_calls edgeStroke_def canvasPoint_def)
  have body: "drawConnection tf lms =
      (\<lambda>c. calls (if missing lms (fst c) \<or> missing lms (snd c) then []
                     else edgeStroke tf lms c))"
    by (rule ext) (rule drawConnection_calls)
  have "forEach (drawConnection tf lms) connections =
      calls (concat (map (\<lambda>c. if missing lms (fst c) \<or> missing lms (snd c) then []
                                else edgeStroke tf lms c) connections))"
    unfolding body by (rule forEach_calls)
  then have all: "forEach (drawConnection tf lms) connections =
       calls (concat (map (edgeStroke tf lms) (presentEdges lms)))"
    by (simp add: concat_map_if_filter presentEdges_def)
  have whole: "drawConnections tf lms =
       (BeginPath # concat (map (edgeStroke tf lms) (presentEdges lms)) @ [Stroke], None)"
    by (simp add: drawConnections_def all calls_def andThen_def)
  show ?thesis
    using one all whole by blast
qed

theorem C6_connections_skip_missing_witness:
  "length partialHand = 21
   \<and> missing partialHand 4 \<and> missing partialHand 20
   \<and> presentEdges partialHand =
       [(0, 1), (1, 2), (2, 3), (0, 5), (5, 6), (6, 7), (7, 8), (5, 9), (9, 10), (10, 11), (11, 12), (9, 13), (13, 14), (14, 15), (15, 16), (13, 17), (17, 18), (18, 19), (0, 17)]
   \<and> drawConnection sampleFit partialHand (3, 4) = calls []
   \<and> drawConnection sampleFit partialHand (19, 20) = calls []
   \<and> drawConnection sampleFit partialHand (2, 3) = calls [MoveTo 50 30, LineTo 70 35]
   \<and> drawConnections sampleFit partialHand =
      (
       [BeginPath,
        MoveTo 10 20, LineTo 30 25,
        MoveTo 30 25, LineTo 50 30,
        MoveTo 50 30, LineTo 70 35,
        MoveTo 10 20, LineTo 110 45,
        MoveTo 110 45, LineTo 130 50,
        MoveTo 130 50, LineTo 150 55,
        MoveTo 150 55, LineTo 170 60,
        MoveTo 110 45, LineTo 190 65,
        MoveTo 190 65, LineTo 210 70,
        MoveTo 210 70, LineTo 230 75,
        MoveTo 230 75, LineTo 250 80,
        MoveTo 190 65, LineTo 270 85,
        MoveTo 270 85, LineTo 290 90,
        MoveTo 290 90, LineTo 310 95,
        MoveTo 310 95, LineTo 330 100,
        MoveTo 270 85, LineTo 350 105,
        MoveTo 350 105, LineTo 370 110,
        MoveTo 370 110, LineTo 390 115,
        MoveTo 10 20, LineTo 350 105,
        Stroke], None)"
proof -
  have len: "length partialHand = 21"
    by (simp add: partialHand_def)
  have m: "missing partialHand 4" "missing partialHand 20"
    "\<not> missing partialHand 2" "\<not> missing partialHand 3" "\<not> missing partialHand 19"
    by (simp_all add: missing_def partialHand_def)
  have edges: "presentEdges partialHand =
       [(0, 1), (1, 2), (2, 3), (0, 5), (5, 6), (6, 7), (7, 8), (5, 9), (9, 10), (10, 11), (11, 12), (9, 13), (13, 14), (14, 15), (15, 16), (13, 17), (17, 18), (18, 19), (0, 17)]"
    by (simp add: presentEdges_def connections_def missing_def partialHand_def)
  have pt: "canvasPoint sampleFit (joint i) = (real (20 * i + 10), real (5 * i + 20))"
    if "i \<le> 20" for i
  proof -
    have b: "20 * i < 2 ^ 53" "5 * i < 2 ^ 53" "20 * i + 10 < 2 ^ 53" "5 * i + 20 < 2 ^ 53"
      using that by simp_all
    have "fl (20 * real i) = 20 * real i" "fl (5 * real i) = 5 * real i"
      "fl (20 * real i + 10) = 20 * real i + 10" "fl (5 * real i + 20) = 5 * real i + 20"
      using fl_of_nat [OF b(1)] fl_of_nat [OF b(2)] fl_of_nat [OF b(3)] fl_of_nat [OF b(4)]
      by simp_all
    then show ?thesis
      by (simp add: canvasPoint_def joint_def sampleFit_def)
  qed
  have strokes: "concat (map (edgeStroke sampleFit partialHand) (presentEdges partialHand)) =
      butlast (tl (
       [BeginPath,
        MoveTo 10 20, LineTo 30 25,
        MoveTo 30 25, LineTo 50 30,
        MoveTo 50 30, LineTo 70 35,
        MoveTo 10 20, LineTo 110 45,
        MoveTo 110 45, LineTo 130 50,
        MoveTo 130 50, LineTo 150 55,
        MoveTo 150 55, LineTo 170 60,
        MoveTo 110 45, LineTo 190 65,
        MoveTo 190 65, LineTo 210 70,
        MoveTo 210 70, LineTo 230 75,
        MoveTo 230 75, LineTo 250 80,
        MoveTo 190 65, LineTo 270 85,
        MoveTo 270 85, LineTo 290 90,
        MoveTo 290 90, LineTo 310 95,
        MoveTo 310 95, LineTo 330 100,
        MoveTo 270 85, LineTo 350 105,
        MoveTo 350 105, LineTo 370 110,
        MoveTo 370 110, LineTo 390 115,
        MoveTo 10 20, LineTo 350 105,
        Stroke]))"
    unfolding edges by (simp add: edgeStroke_def partialHand_def pt)
  have e34: "drawConnection sampleFit partialHand (3, 4) = calls []"
    using C6_connections_skip_missing [of sampleFit partialHand "(3, 4)"] m by simp
  have e1920: "drawConnection sampleFit partialHand (19, 20) = calls []"
    using C6_connections_skip_missing [of sampleFit partialHand "(19, 20)"] m by simp
  have e23: "drawConnection sampleFit partialHand (2, 3) = calls [MoveTo 50 30, LineTo 70 35]"
    using C6_connections_skip_missing [of sampleFit partialHand "(2, 3)"] m pt [of 2] pt [of 3]
    by (simp add: canvasPoint_def partialHand_def)
  have whole: "drawConnections sampleFit partialHand =
      (
       [BeginPath,
        MoveTo 10 20, LineTo 30 25,
        MoveTo 30 25, LineTo 50 30,
        MoveTo 50 30, LineTo 70 35,
        MoveTo 10 20, LineTo 110 45,
        MoveTo 110 45, LineTo 130 50,
        MoveTo 130 50, LineTo 150 55,
        MoveTo 150 55, LineTo 170 60,
        MoveTo 110 45, LineTo 190 65,
        MoveTo 190 65, LineTo 210 70,
        MoveTo 210 70, LineTo 230 75,
        MoveTo 230 75, LineTo 250 80,
        MoveTo 190 65, LineTo 270 85,
        MoveTo 270 85, LineTo 290 90,
        MoveTo 290 90, LineTo 310 95,
        MoveTo 310 95, LineTo 330 100,
        MoveTo 270 85, LineTo 350 105,
        MoveTo 350 105, LineTo 370 110,
        MoveTo 370 110, LineTo 390 115,
        MoveTo 10 20, LineTo 350 105,
        Stroke], None)"
    using C6_connections_skip_missing [of sampleFit partialHand "(0, 1)"] strokes by simp
  show ?thesis
    using len m(1,2) edges e34 e1920 e23 whole by blast
qed

text \<open>
  C10. For every landmark whose visibility is undefined or exactly 0, the disc is
  drawn, and with visibility 1: its radius is the full \<open>baseRadius * (1 + z * 1.5)\<close>,
  with \<open>baseRadius = max(8, min(scaleX, scaleY) / 40)\<close>, the colour stops of its
  gradient have the opacities 1, 0.8 and 0.2, the index text (for a radius above 10)
  has the opacity 0.9, and the calls made are those made for the same landmark with
  visibility 1.
\<close>

theorem C10_zero_visibility_default:
  assumes "visibility lm = None \<or> visibility lm = Some 0"
  shows "drawDisc tf baseHue time (index, Some lm) =
      (let px = fl (fl (lmX lm * scaleX tf) + offsetX tf);
           py = fl (fl (lmY lm * scaleY tf) + offsetY tf);
           r = fl (max 8 (fl (min (scaleX tf) (scaleY tf) / 40)) * fl (1 + fl (lmZ lm * 1.5)));
           hue = jsRem (fl (fl (baseHue + fl (real index * 15)) + fl (time * 20))) 360
       in ([SetShadowColor (Hsla hue 90 70 0.8),
            SetShadowBlur r,
            SetFillStyle
              (RadialGradient px py 0 px py (fl (r * 1.5))
                 [(0, Hsla hue 90 90 1),
                  (fl 0.7, Hsla hue 85 75 (fl 0.8)),
                  (1, Hsla hue 80 50 (fl 0.2))]),
            BeginPath,
            Arc px py r 0 (fl (2 * fl pi)),
            Fill] @
           (if 10 < r then
              [SetFillStyle (ColorFill (Rgba 255 255 255 (fl 0.9))),
               SetFont (max 12 (fl (r / 2))),
               SetShadowColor (Rgba 0 0 0 0.8),
               SetShadowBlur 4,
               SetTextAlignCenter,
               SetTextBaselineMiddle,
               FillText index px py]
            else []),
           None))
    \<and> drawDisc tf baseHue time (index, Some lm) =
        drawDisc tf baseHue time (index, Some (lm \<lparr> visibility := Some 1 \<rparr>))"
proof -
  have vis: "discVisibility lm = 1"
    using assms by (auto simp add: discVisibility_def jsOr_def)
  have vis1: "discVisibility (lm \<lparr> visibility := Some 1 \<rparr>) = 1"
    by (simp add: discVisibility_def jsOr_def)
  have rad: "discRadius tf lm =
      fl (max 8 (fl (min (scaleX tf) (scaleY tf) / 40)) * fl (1 + fl (lmZ lm * 1.5)))"
    by (simp add: discRadius_def baseRadius_def vis fmul_def fadd_def fdiv_def)
  have rad1: "discRadius tf (lm \<lparr> visibility := Some 1 \<rparr>) = discRadius tf lm"
    by (simp add: discRadius_def vis vis1)
  have emitted: "drawDisc tf baseHue time (index, Some lm) =
      (let px = fl (fl (lmX lm * scaleX tf) + offsetX tf);
           py = fl (fl (lmY lm * scaleY tf) + offsetY tf);
           r = fl (max 8 (fl (min (scaleX tf) (scaleY tf) / 40)) * fl (1 + fl (lmZ lm * 1.5)));
           hue = jsRem (fl (fl (baseHue + fl (real index * 15)) + fl (time * 20))) 360
       in ([SetShadowColor (Hsla hue 90 70 0.8),
            SetShadowBlur r,
            SetFillStyle
              (RadialGradient px py 0 px py (fl (r * 1.5))
                 [(0, Hsla hue 90 90 1),
                  (fl 0.7, Hsla hue 85 75 (fl 0.8)),
                  (1, Hsla hue 80 50 (fl 0.2))]),
            BeginPath,
            Arc px py r 0 (fl (2 * fl pi)),
            Fill] @
           (if 10 < r then
              [SetFillStyle (ColorFill (Rgba 255 255 255 (fl 0.9))),
               SetFont (max 12 (fl (r / 2))),
               SetShadowColor (Rgba 0 0 0 0.8),
               SetShadowBlur 4,
               SetTextAlignCenter,
               SetTextBaselineMiddle,
               FillText index px py]
            else []),
           None))"
    unfolding drawDisc_def discGradient_def
    by (simp add: vis rad toCanvasX_def toCanvasY_def calls_def fmul_def fadd_def fdiv_def
        Let_def)
  have same: "drawDisc tf baseHue time (index, Some lm) =
        drawDisc tf baseHue time (index, Some (lm \<lparr> visibility := Some 1 \<rparr>))"
    by (simp add: drawDisc_def vis vis1 rad1)
  show ?thesis
    using emitted same by blast
qed

theorem C10_zero_visibility_default_witness:
  "visibility (joint 8) = Some 0
   \<and> drawDisc sampleFit 30 0 (8, Some (joint 8)) =
       ([SetShadowColor (Hsla 150 90 70 0.8),
         SetShadowBlur 32,
         SetFillStyle
           (RadialGradient 170 60 0 170 60 48
              [(0, Hsla 150 90 90 1),
               (fl 0.7, Hsla 150 85 75 (fl 0.8)),
               (1, Hsla 150 80 50 (fl 0.2))]),
         BeginPath,
         Arc 170 60 32 0 (fl (2 * fl pi)),
         Fill,
         SetFillStyle (ColorFill (Rgba 255 255 255 (fl 0.9))),
         SetFont 16,
         SetShadowColor (Rgba 0 0 0 0.8),
         SetShadowBlur 4,
         SetTextAlignCenter,
         SetTextBaselineMiddle,
         FillText 8 170 60],
        None)
   \<and> drawDisc sampleFit 30 0 (8, Some (joint 8)) =
       drawDisc sampleFit 30 0 (8, Some ((joint 8) \<lparr> visibility := Some 1 \<rparr>))"
proof -
  have v: "visibility (joint 8) = Some 0"
    by (simp add: joint_def)
  have hue: "jsRem 150 360 = 150"
    by (simp add: jsRem_def)
  note disc = C10_zero_visibility_default [OF disjI2 [OF v], of sampleFit 30 0 8]
  have emitted: "drawDisc sampleFit 30 0 (8, Some (joint 8)) =
       ([SetShadowColor (Hsla 150 90 70 0.8),
         SetShadowBlur 32,
         SetFillStyle
           (RadialGradient 170 60 0 170 60 48
              [(0, Hsla 150 90 90 1),
               (fl 0.7, Hsla 150 85 75 (fl 0.8)),
               (1, Hsla 150 80 50 (fl 0.2))]),
         BeginPath,
         Arc 170 60 32 0 (fl (2 * fl pi)),
         Fill,
         SetFillStyle (ColorFill (Rgba 255 255 255 (fl 0.9))),
         SetFont 16,
         SetShadowColor (Rgba 0 0 0 0.8),
         SetShadowBlur 4,
         SetTextAlignCenter,
         SetTextBaselineMiddle,
         FillText 8 170 60],
        None)"
    unfolding disc [THEN conjunct1]
    by (simp add: joint_def sampleFit_def hue Let_def)
  show ?thesis
    using v emitted disc [THEN conjunct2] by blast
qed


section \<open>Properties of the render callback's guards\<close>

text \<open>
  C7, as stated, fails. In the state \<open>mounted\<close> the video has no intrinsic size yet, the
  canvas and its context exist, and the viewport is 1920 by 1080: the callback returns at
  line 43, after lines 38-39 have changed the canvas size from 300 by 150 to the
  viewport's. The call is not a no-op.
\<close>

theorem C7_skipped_render_resizes_counterexample:
  "unavailable mounted
   \<and> fst (onResults (\<lambda>i. 0) noHands mounted) \<noteq> mounted
   \<and> canvasRef (fst (onResults (\<lambda>i. 0) noHands mounted)) =
       Some \<lparr> width = 1920, height = 1080, context2d = Some [] \<rparr>"
  by (simp add: unavailable_def mounted_def onResults_def)

text \<open>
  C7, amended. For every invocation of the render callback in which the canvas, its 2D
  context, the video element or the video's intrinsic width or height is unavailable,
  nothing is drawn, the detection results are not updated and no error is raised. The
  call changes nothing at all when the canvas or its context is unavailable; when they
  are available and only the video or its size is not, the one effect of the call is
  that the canvas width and height are set to the viewport's.
\<close>

theorem C7_skipped_render:
  assumes "unavailable w"
  shows "onResults now results w = (w \<lparr> canvasRef := resized w \<rparr>, None)
    \<and> snd (onResults now results w) = None
    \<and> Option.bind (canvasRef (fst (onResults now results w))) context2d =
        Option.bind (canvasRef w) context2d
    \<and> detectionResults (fst (onResults now results w)) = detectionResults w
    \<and> (if canvasRef w = None \<or> Option.bind (canvasRef w) context2d = None
        then fst (onResults now results w) = w
        else map_option width (canvasRef (fst (onResults now results w))) = Some (innerWidth w)
           \<and> map_option height (canvasRef (fst (onResults now results w))) = Some (innerHeight w))"
proof -
  have run: "onResults now results w = (w \<lparr> canvasRef := resized w \<rparr>, None)"
    using assms
    by (auto simp add: unavailable_def onResults_def resized_def
        split: option.splits)
  have ctx: "Option.bind (resized w) context2d = Option.bind (canvasRef w) context2d"
    by (cases "canvasRef w") (simp_all add: resized_def)
  have same: "canvasRef w = None \<or> Option.bind (canvasRef w) context2d = None
      \<Longrightarrow> w \<lparr> canvasRef := resized w \<rparr> = w"
    by (auto simp add: resized_def)
  have size: "\<not> (canvasRef w = None \<or> Option.bind (canvasRef w) context2d = None)
      \<Longrightarrow> map_option width (resized w) = Some (innerWidth w)
        \<and> map_option height (resized w) = Some (innerHeight w)"
    by (cases "canvasRef w") (auto simp add: resized_def)
  show ?thesis
    unfolding run using ctx same size by simp
qed

theorem C7_skipped_render_witness:
  "unavailable mounted
   \<and> snd (onResults (\<lambda>i. 0) noHands mounted) = None
   \<and> Option.bind (canvasRef (fst (onResults (\<lambda>i. 0) noHands mounted))) context2d = Some []
   \<and> detectionResults (fst (onResults (\<lambda>i. 0) noHands mounted)) = []
   \<and> map_option width (canvasRef (fst (onResults (\<lambda>i. 0) noHands mounted))) = Some 1920
   \<and> map_option height (canvasRef (fst (onResults (\<lambda>i. 0) noHands mounted))) = Some 1080"
proof -
  have u: "unavailable mounted"
    by (simp add: unavailable_def mounted_def)
  have m: "Option.bind (canvasRef mounted) context2d = Some []" "detectionResults mounted = []"
    "canvasRef mounted \<noteq> None" "innerWidth mounted = 1920" "innerHeight mounted = 1080"
    by (simp_all add: mounted_def)
  show ?thesis
    using C7_skipped_render [OF u, of "\<lambda>i. 0" noHands] u m by auto
qed

section \<open>Properties of the session\<close>

text \<open>
  C2, as stated, fails. In the state \<open>mounted\<close> the detector has not been initialised.
  With a detector and a camera that both work, \<open>startCamera\<close> initialises the detector and
  returns at line 221: no camera is constructed or started and the streaming state is
  not set.
\<close>

theorem C2_start_uninitialized_counterexample:
  "handsRef mounted = None
   \<and> handsRef (startCamera HandsOk CameraOk mounted) \<noteq> None
   \<and> \<not> isStreaming (startCamera HandsOk CameraOk mounted)
   \<and> cameraRef (startCamera HandsOk CameraOk mounted) = None
   \<and> effects (startCamera HandsOk CameraOk mounted) = []"
  by (simp add: mounted_def startCamera_def initializeMediaPipe_def)

text \<open>
  C2, amended. For every call to startCamera made when the detector has not yet been
  initialized, startCamera performs the initialization and returns: it constructs no
  camera source, starts no capture and leaves the streaming state as it was. When that
  initialization succeeded and the video element exists, the next call to startCamera
  constructs the camera source, starts capture and sets the streaming state on success.
\<close>

theorem C2_start_uninitialized:
  assumes "handsRef w = None"
  shows "startCamera ho co w = initializeMediaPipe ho w
    \<and> cameraRef (startCamera ho co w) = cameraRef w
    \<and> isStreaming (startCamera ho co w) = isStreaming w
    \<and> effects (startCamera ho co w) = effects w @ (if ho = HandsOk then [] else [ConsoleError])
    \<and> (if ho = HandsOk \<and> videoRef w \<noteq> None
        then isInitialized (startCamera ho co w)
           \<and> isStreaming (startCamera ho2 CameraOk (startCamera ho co w))
           \<and> cameraRef (startCamera ho2 CameraOk (startCamera ho co w)) =
               Some \<lparr> captureWidth = 1280, captureHeight = 720 \<rparr>
           \<and> effects (startCamera ho2 CameraOk (startCamera ho co w)) =
               effects w @ [CameraCreated 1280 720, CameraStarted]
        else True)"
proof -
  have first: "startCamera ho co w = initializeMediaPipe ho w"
    using assms by (simp add: startCamera_def)
  show ?thesis
    unfolding first
    by (cases ho) (auto simp add: startCamera_def initializeMediaPipe_def)
qed

theorem C2_start_uninitialized_witness:
  "handsRef mounted = None
   \<and> startCamera HandsOk CameraOk mounted = initializeMediaPipe HandsOk mounted
   \<and> cameraRef (startCamera HandsOk CameraOk mounted) = None
   \<and> \<not> isStreaming (startCamera HandsOk CameraOk mounted)
   \<and> effects (startCamera HandsOk CameraOk mounted) = []
   \<and> isStreaming (startCamera HandsOk CameraOk (startCamera HandsOk CameraOk mounted))
   \<and> effects (startCamera HandsOk CameraOk (startCamera HandsOk CameraOk mounted)) =
       [CameraCreated 1280 720, CameraStarted]"
proof -
  have h: "handsRef mounted = None"
    by (simp add: mounted_def)
  have m: "cameraRef mounted = None" "\<not> isStreaming mounted" "effects mounted = []"
    "videoRef mounted \<noteq> None"
    by (simp_all add: mounted_def)
  show ?thesis
    using C2_start_uninitialized [OF h, of HandsOk CameraOk HandsOk] h m by auto
qed

text \<open>
  C5. When startCamera fails because constructing or starting the camera throws (the
  detector and the video element being there), the error state holds a non-empty
  message and the streaming state and the camera handle are as before; a following
  startCamera call that succeeds sets the error state to the empty string and the
  streaming state to true.
\<close>

theorem C5_camera_failure_recovers:
  assumes "handsRef w \<noteq> None" and "videoRef w \<noteq> None" and "co \<noteq> CameraOk"
  shows "error (startCamera ho co w) = cameraErrorMessage
    \<and> error (startCamera ho co w) \<noteq> []
    \<and> isStreaming (startCamera ho co w) = isStreaming w
    \<and> cameraRef (startCamera ho co w) = cameraRef w
    \<and> error (startCamera ho2 CameraOk (startCamera ho co w)) = []
    \<and> isStreaming (startCamera ho2 CameraOk (startCamera ho co w))"
proof -
  have "\<exists>fx. startCamera ho co w =
      w \<lparr> error := cameraErrorMessage, effects := effects w @ fx \<rparr>"
    using assms by (cases co) (auto simp add: startCamera_def)
  then obtain fx where failed: "startCamera ho co w =
      w \<lparr> error := cameraErrorMessage, effects := effects w @ fx \<rparr>"
    by blast
  have message: "cameraErrorMessage \<noteq> []"
    by (simp add: cameraErrorMessage_def)
  show ?thesis
    unfolding failed using assms message by (auto simp add: startCamera_def)
qed

theorem C5_camera_failure_recovers_witness:
  "handsRef (initializeMediaPipe HandsOk mounted) \<noteq> None
   \<and> videoRef (initializeMediaPipe HandsOk mounted) \<noteq> None
   \<and> CameraStartThrows \<noteq> CameraOk
   \<and> error (startCamera HandsOk CameraStartThrows (initializeMediaPipe HandsOk mounted)) \<noteq> []
   \<and> \<not> isStreaming (startCamera HandsOk CameraStartThrows (initializeMediaPipe HandsOk mounted))
   \<and> error (startCamera HandsOk CameraOk
        (startCamera HandsOk CameraStartThrows (initializeMediaPipe HandsOk mounted))) = []
   \<and> isStreaming (startCamera HandsOk CameraOk
        (startCamera HandsOk CameraStartThrows (initializeMediaPipe HandsOk mounted)))"
proof -
  have h: "handsRef (initializeMediaPipe HandsOk mounted) \<noteq> None"
    by (simp add: initializeMediaPipe_def)
  have v: "videoRef (initializeMediaPipe HandsOk mounted) \<noteq> None"
    by (simp add: initializeMediaPipe_def mounted_def)
  have c: "CameraStartThrows \<noteq> CameraOk"
    by simp
  have s: "\<not> isStreaming (initializeMediaPipe HandsOk mounted)"
    by (simp add: initializeMediaPipe_def mounted_def)
  show ?thesis
    using C5_camera_failure_recovers [OF h v c, of HandsOk HandsOk] h v s by auto
qed

text \<open>
  C8. A call to stopCamera made when no camera handle is held, the streaming flag is
  false and the detection results are empty (as before any startCamera call) raises no
  error and returns the state it was given: streaming flag, detection results,
  initialization flag, error message and every other component keep their values, and
  no call reaches the camera.
\<close>

theorem C8_stop_before_start:
  assumes "cameraRef w = None" and "\<not> isStreaming w" and "detectionResults w = []"
  shows "stopCamera w = w"
  using assms by (simp add: stopCamera_def)

theorem C8_stop_before_start_witness:
  "cameraRef mounted = None \<and> \<not> isStreaming mounted \<and> detectionResults mounted = []
   \<and> stopCamera mounted = mounted"
proof -
  have m: "cameraRef mounted = None" "\<not> isStreaming mounted" "detectionResults mounted = []"
    by (simp_all add: mounted_def)
  show ?thesis
    using C8_stop_before_start [OF m] m by simp
qed

end
